theory Spec2Isabelle
  imports Complex_Main "HOL-Library.Monad_Syntax"
begin

section \<open>JavaScript values\<close>

text \<open>
  Provider payloads are typed \<^verbatim>\<open>any\<close> in the sources: they are JSON documents.
  A number is an exact rational (every finite double is one; \<^verbatim>\<open>NaN\<close> and the infinities
  do not occur in JSON). An object is the list of its own properties in the order
  \<^verbatim>\<open>Object.keys\<close> enumerates them; where a key occurs twice the first entry is the
  property. Members inherited from a prototype are not modelled.
  Time (\<^verbatim>\<open>Date.now()\<close>) is an integer number of milliseconds handed to each operation.
\<close>

datatype json =
    JUndefined
  | JNull
  | JBool bool
  | JNum rat
  | JStr string
  | JArr "json list"
  | JObj "(string \<times> json) list"

text \<open>ToBoolean, as \<^verbatim>\<open>if (x)\<close>, \<^verbatim>\<open>!x\<close> and \<^verbatim>\<open>x || y\<close> use it.\<close>

fun truthy :: "json \<Rightarrow> bool" where
  "truthy JUndefined = False"
| "truthy JNull = False"
| "truthy (JBool b) = b"
| "truthy (JNum n) = (n \<noteq> 0)"
| "truthy (JStr s) = (s \<noteq> [])"
| "truthy (JArr xs) = True"
| "truthy (JObj kvs) = True"

text \<open>
  \<^verbatim>\<open>x.k\<close>: a TypeError (\<open>None\<close>) on \<^verbatim>\<open>undefined\<close> and \<^verbatim>\<open>null\<close>, the own
  property of an object, \<^verbatim>\<open>undefined\<close> otherwise.
\<close>

fun getProp :: "json \<Rightarrow> string \<Rightarrow> json option" where
  "getProp JUndefined k = None"
| "getProp JNull k = None"
| "getProp (JObj kvs) k = Some (case map_of kvs k of None \<Rightarrow> JUndefined | Some v \<Rightarrow> v)"
| "getProp v k = Some JUndefined"

text \<open>
  \<^verbatim>\<open>x.k\<close> where the source has already tested \<^verbatim>\<open>x\<close> truthy (or short-circuits on it),
  and \<^verbatim>\<open>x?.k\<close>: no TypeError can arise.
\<close>

definition field :: "json \<Rightarrow> string \<Rightarrow> json" where
  "field v k = (case getProp v k of None \<Rightarrow> JUndefined | Some x \<Rightarrow> x)"

text \<open>\<^verbatim>\<open>a || b\<close>\<close>

definition js_or :: "json \<Rightarrow> json \<Rightarrow> json" where
  "js_or a b = (if truthy a then a else b)"

section \<open>Response cache (api-integrations)\<close>

record cache_item =
  data :: json
  timestamp :: int
  expiry :: int

type_synonym api_cache = "string \<rightharpoonup> cache_item"

definition CACHE_TTL :: int where
  "CACHE_TTL = 24 * 60 * 60 * 1000"

text \<open>
  The module-level object \<^verbatim>\<open>apiCache\<close> is passed in and handed back. \<^verbatim>\<open>getFromCache\<close>
  gives the value returned (\<^verbatim>\<open>null\<close> on a miss) and the cache after the lookup;
  \<^verbatim>\<open>storeInCache\<close> reads the clock once.
\<close>

definition getFromCache :: "int \<Rightarrow> api_cache \<Rightarrow> string \<Rightarrow> json \<times> api_cache" where
  "getFromCache now apiCache cacheKey =
     (case apiCache cacheKey of
        None \<Rightarrow> (JNull, apiCache)
      | Some cachedItem \<Rightarrow>
          if now - timestamp cachedItem > CACHE_TTL
          then (JNull, apiCache(cacheKey := None))
          else (data cachedItem, apiCache))"

definition storeInCache :: "int \<Rightarrow> api_cache \<Rightarrow> string \<Rightarrow> json \<Rightarrow> api_cache" where
  "storeInCache now apiCache cacheKey d =
     apiCache(cacheKey \<mapsto> \<lparr>data = d, timestamp = now, expiry = now + CACHE_TTL\<rparr>)"

section \<open>Retry executors\<close>

text \<open>
  An operation \<^verbatim>\<open>() => Promise<T>\<close> is given by the outcome of each of its invocations,
  counted from 0: \<open>Inl\<close> a rejection (the value thrown), \<open>Inr\<close> the value it resolves to.
  An executor returns its own outcome together with the trace of what it did. Its outcome
  is \<open>Inl\<close> when the executor throws; \<open>Inl None\<close> is \<^verbatim>\<open>throw undefined\<close>.
  Retry counts and delays are natural numbers, as at every call site.
\<close>

datatype event = AcquireToken | Call nat | Sleep nat

text \<open>A thrown value: an \<^verbatim>\<open>Error\<close> instance with its message, or any other value.\<close>

datatype js_error = JsError string | JsThrown json

subsection \<open>\<^verbatim>\<open>withRetry\<close> (api-tools)\<close>

function withRetry_loop ::
  "(nat \<Rightarrow> 'e + 'a) \<Rightarrow> nat \<Rightarrow> nat \<Rightarrow> nat \<Rightarrow> 'e option \<Rightarrow> ('e option + 'a) \<times> event list" where
  "withRetry_loop apiCall retries delay attempt lastError =
     (if attempt \<le> retries + 1 then
        (case apiCall (attempt - 1) of
           Inr v \<Rightarrow> (Inr v, [Call (attempt - 1)])
         | Inl error \<Rightarrow>
             if attempt \<le> retries then
               (case withRetry_loop apiCall retries (delay * 2) (attempt + 1) (Some error) of
                  (r, tr) \<Rightarrow> (r, Call (attempt - 1) # Sleep delay # tr))
             else
               (case withRetry_loop apiCall retries delay (attempt + 1) (Some error) of
                  (r, tr) \<Rightarrow> (r, Call (attempt - 1) # tr)))
      else (Inl lastError, []))"
  by pat_completeness auto
termination
  by (relation "measure (\<lambda>(apiCall, retries, delay, attempt, lastError). retries + 2 - attempt)") auto

declare withRetry_loop.simps [simp del]

definition withRetry :: "(nat \<Rightarrow> 'e + 'a) \<Rightarrow> nat \<Rightarrow> nat \<Rightarrow> ('e option + 'a) \<times> event list" where
  "withRetry apiCall retries delay = withRetry_loop apiCall retries delay 1 None"

subsection \<open>\<^verbatim>\<open>RetryUtil\<close>\<close>

text \<open>
  \<^verbatim>\<open>apiConfig.retry\<close> is \<open>\<lparr>maxRetries = 3, baseDelay = 1000, maxDelay = 10000\<rparr>\<close>; the
  executor is modelled for any configuration. \<^verbatim>\<open>rateLimiter.acquireToken()\<close>, the token
  bucket of \<^verbatim>\<open>RateLimiter.ts\<close>, takes no provider and refuses nothing; it can only delay
  the attempt, and is recorded in the trace.
\<close>

record retry_config =
  maxRetries :: nat
  baseDelay :: nat
  maxDelay :: nat

definition calculateDelay :: "retry_config \<Rightarrow> nat \<Rightarrow> nat" where
  "calculateDelay cfg retryCount =
     (let exponentialDelay = baseDelay cfg * 2 ^ retryCount
      in min exponentialDelay (maxDelay cfg))"

function executeWithRetry_loop ::
  "retry_config \<Rightarrow> (nat \<Rightarrow> 'e + 'a) \<Rightarrow> ('e \<Rightarrow> bool) \<Rightarrow> nat \<Rightarrow> 'e option
     \<Rightarrow> ('e option + 'a) \<times> event list" where
  "executeWithRetry_loop cfg operation shouldRetry retryCount lastError =
     (if retryCount \<le> maxRetries cfg then
        (case operation retryCount of
           Inr v \<Rightarrow> (Inr v, [AcquireToken, Call retryCount])
         | Inl error \<Rightarrow>
             if retryCount = maxRetries cfg \<or> \<not> shouldRetry error
             then (Inl (Some error), [AcquireToken, Call retryCount])
             else
               (case executeWithRetry_loop cfg operation shouldRetry (retryCount + 1) (Some error) of
                  (r, tr) \<Rightarrow>
                    (r, AcquireToken # Call retryCount # Sleep (calculateDelay cfg retryCount) # tr)))
      else (Inl lastError, []))"
  by pat_completeness auto
termination
  by (relation "measure (\<lambda>(cfg, operation, shouldRetry, retryCount, lastError).
        maxRetries cfg + 1 - retryCount)") auto

declare executeWithRetry_loop.simps [simp del]

definition executeWithRetry ::
  "retry_config \<Rightarrow> (nat \<Rightarrow> 'e + 'a) \<Rightarrow> ('e \<Rightarrow> bool) \<Rightarrow> ('e option + 'a) \<times> event list" where
  "executeWithRetry cfg operation shouldRetry =
     executeWithRetry_loop cfg operation shouldRetry 0 None"

text \<open>The default \<^verbatim>\<open>shouldRetry = () => true\<close>.\<close>

definition retryAlways :: "'e \<Rightarrow> bool" where
  "retryAlways error = True"

definition apiConfig_retry :: retry_config where
  "apiConfig_retry = \<lparr>maxRetries = 3, baseDelay = 1000, maxDelay = 10000\<rparr>"

text \<open>What a trace shows: the number of invocations and the delays slept, in order.\<close>

fun attempts :: "event list \<Rightarrow> nat" where
  "attempts [] = 0"
| "attempts (Call k # tr) = Suc (attempts tr)"
| "attempts (e # tr) = attempts tr"

fun sleeps :: "event list \<Rightarrow> nat list" where
  "sleeps [] = []"
| "sleeps (Sleep d # tr) = d # sleeps tr"
| "sleeps (e # tr) = sleeps tr"


section \<open>Rate limiter (rate-limiter)\<close>

text \<open>
  The module that keeps a count per model name and answers admission checks:
  \<^verbatim>\<open>canMakeRequest\<close>, \<^verbatim>\<open>registerRequest\<close>, \<^verbatim>\<open>handleRateLimitError\<close>, \<^verbatim>\<open>getWaitTime\<close>.
  Its table \<^verbatim>\<open>rateLimits\<close> is passed in and handed back. The lookups
  \<^verbatim>\<open>rateLimits[modelName]\<close> and \<^verbatim>\<open>QUOTA_LIMITS[modelName]\<close> read own properties here; a
  model name that is also a member of \<^verbatim>\<open>Object.prototype\<close> (\<^verbatim>\<open>constructor\<close>,
  \<^verbatim>\<open>toString\<close>, ...), for which the code finds the inherited member, is outside the model.
\<close>

record RateLimitInfo =
  requestCount :: nat
  lastReset :: int
  isBackingOff :: bool
  nextAvailable :: int

type_synonym rate_limits = "string \<rightharpoonup> RateLimitInfo"

definition QUOTA_LIMITS :: "string \<rightharpoonup> nat" where
  "QUOTA_LIMITS = [''gemini-1.5-pro'' \<mapsto> 10, ''embedding-001'' \<mapsto> 20, ''default'' \<mapsto> 5]"

text \<open>\<^verbatim>\<open>QUOTA_LIMITS[modelName] || QUOTA_LIMITS.default\<close>\<close>

definition quotaOf :: "string \<Rightarrow> nat" where
  "quotaOf modelName =
     (case QUOTA_LIMITS modelName of
        None \<Rightarrow> 5
      | Some q \<Rightarrow> if q = 0 then 5 else q)"

text \<open>\<^verbatim>\<open>model || 'default'\<close>\<close>

definition modelNameOf :: "string \<Rightarrow> string" where
  "modelNameOf model = (if model = [] then ''default'' else model)"

definition initializeModelLimit :: "int \<Rightarrow> RateLimitInfo" where
  "initializeModelLimit now =
     \<lparr>requestCount = 0, lastReset = now, isBackingOff = False, nextAvailable = now\<rparr>"

text \<open>The entry of a model after \<^verbatim>\<open>if (!rateLimits[modelName]) rateLimits[modelName] = ...\<close>.\<close>

definition tracked :: "int \<Rightarrow> rate_limits \<Rightarrow> string \<Rightarrow> RateLimitInfo" where
  "tracked now rateLimits modelName =
     (case rateLimits modelName of
        None \<Rightarrow> initializeModelLimit now
      | Some limitInfo \<Rightarrow> limitInfo)"

definition canMakeRequest :: "int \<Rightarrow> string \<Rightarrow> rate_limits \<Rightarrow> bool \<times> rate_limits" where
  "canMakeRequest now model rateLimits =
     (let modelName = modelNameOf model;
          limitInfo = tracked now rateLimits modelName
      in if isBackingOff limitInfo \<and> now < nextAvailable limitInfo
         then (False, rateLimits(modelName \<mapsto> limitInfo))
         else
           let afterBackoff =
                 (if isBackingOff limitInfo
                  then limitInfo\<lparr>isBackingOff := False, requestCount := 0, lastReset := now\<rparr>
                  else limitInfo);
               afterReset =
                 (if now - lastReset afterBackoff > 60000
                  then afterBackoff\<lparr>requestCount := 0, lastReset := now\<rparr>
                  else afterBackoff)
           in (requestCount afterReset < quotaOf modelName,
               rateLimits(modelName \<mapsto> afterReset)))"

definition registerRequest :: "int \<Rightarrow> string \<Rightarrow> rate_limits \<Rightarrow> rate_limits" where
  "registerRequest now model rateLimits =
     (let modelName = modelNameOf model;
          limitInfo = tracked now rateLimits modelName
      in rateLimits(modelName \<mapsto> limitInfo\<lparr>requestCount := requestCount limitInfo + 1\<rparr>))"

definition handleRateLimitError :: "int \<Rightarrow> string \<Rightarrow> int \<Rightarrow> rate_limits \<Rightarrow> rate_limits" where
  "handleRateLimitError now model retryAfterSec rateLimits =
     (let modelName = modelNameOf model;
          limitInfo = tracked now rateLimits modelName
      in rateLimits(modelName \<mapsto>
           limitInfo\<lparr>isBackingOff := True, nextAvailable := now + retryAfterSec * 1000\<rparr>))"

definition getWaitTime :: "int \<Rightarrow> string \<Rightarrow> rate_limits \<Rightarrow> int" where
  "getWaitTime now model rateLimits =
     (let modelName = modelNameOf model
      in case rateLimits modelName of
           None \<Rightarrow> 0
         | Some limitInfo \<Rightarrow>
             if isBackingOff limitInfo then max 0 (nextAvailable limitInfo - now)
             else if requestCount limitInfo \<ge> quotaOf modelName
             then max 0 ((lastReset limitInfo + 60000) - now)
             else 0)"

section \<open>Strings and objects\<close>

text \<open>
  Strings are ASCII. \<^verbatim>\<open>String(v)\<close> of a value that is not a string (number formatting,
  \<^verbatim>\<open>[object Object]\<close>, ...) is the engine's business: the functions that need it take it
  as the parameter \<open>str\<close>.
\<close>

definition toLowerCase :: "string \<Rightarrow> string" where
  "toLowerCase s =
     map (\<lambda>c. if 65 \<le> (of_char c :: nat) \<and> (of_char c :: nat) \<le> 90
              then char_of ((of_char c :: nat) + 32) else c) s"

definition isSpace :: "char \<Rightarrow> bool" where
  "isSpace c = ((of_char c :: nat) \<in> {9, 10, 11, 12, 13, 32})"

text \<open>\<^verbatim>\<open>s.replace(/\s+/g, r)\<close>\<close>

function replaceSpaces :: "string \<Rightarrow> string \<Rightarrow> string" where
  "replaceSpaces r [] = []"
| "replaceSpaces r (c # cs) =
     (if isSpace c then r @ replaceSpaces r (dropWhile isSpace cs)
      else c # replaceSpaces r cs)"
  by pat_completeness auto
termination
  by (relation "measure (\<lambda>(r, s). length s)") (auto simp: length_dropWhile_le less_Suc_eq_le)

text \<open>Decimal digits of an array index.\<close>

fun nat_to_string :: "nat \<Rightarrow> string" where
  "nat_to_string n =
     (if n < 10 then [char_of (48 + n)]
      else nat_to_string (n div 10) @ [char_of (48 + n mod 10)])"

declare nat_to_string.simps [simp del]

text \<open>The distinct elements in order of first occurrence, as \<^verbatim>\<open>new Set([...])\<close> keeps them.\<close>

definition dedupe :: "'a list \<Rightarrow> 'a list" where
  "dedupe xs = rev (remdups (rev xs))"

text \<open>\<^verbatim>\<open>obj[k] = v\<close> on an object given by its entries.\<close>

fun setKey :: "(string \<times> 'v) list \<Rightarrow> string \<Rightarrow> 'v \<Rightarrow> (string \<times> 'v) list" where
  "setKey [] k v = [(k, v)]"
| "setKey ((k', v') # kvs) k v =
     (if k' = k then (k, v) # kvs else (k', v') # setKey kvs k v)"

text \<open>\<^verbatim>\<open>Object.keys(v)\<close> paired with \<^verbatim>\<open>v[key]\<close>, for a truthy \<^verbatim>\<open>v\<close>.\<close>

definition ownEntries :: "json \<Rightarrow> (string \<times> json) list" where
  "ownEntries v =
     (case v of
        JObj kvs \<Rightarrow> map (\<lambda>k. (k, field (JObj kvs) k)) (dedupe (map fst kvs))
      | JArr xs \<Rightarrow> zip (map nat_to_string [0..<length xs]) xs
      | JStr s \<Rightarrow> zip (map nat_to_string [0..<length s]) (map (\<lambda>c. JStr [c]) s)
      | _ \<Rightarrow> [])"

text \<open>\<^verbatim>\<open>xs.join(sep)\<close>: \<^verbatim>\<open>undefined\<close> and \<^verbatim>\<open>null\<close> elements give the empty string.\<close>

definition elementString :: "(json \<Rightarrow> string) \<Rightarrow> json \<Rightarrow> string" where
  "elementString str v =
     (case v of JUndefined \<Rightarrow> [] | JNull \<Rightarrow> [] | JStr s \<Rightarrow> s | _ \<Rightarrow> str v)"

fun joinWith :: "(json \<Rightarrow> string) \<Rightarrow> string \<Rightarrow> json list \<Rightarrow> string" where
  "joinWith str sep [] = []"
| "joinWith str sep [x] = elementString str x"
| "joinWith str sep (x # xs) = elementString str x @ sep @ joinWith str sep xs"

text \<open>\<^verbatim>\<open>xs.flatMap(f)\<close> on the results of \<^verbatim>\<open>f\<close>: arrays are spliced in, one level deep.\<close>

definition flatten1 :: "json list \<Rightarrow> json list" where
  "flatten1 vs = concat (map (\<lambda>v. case v of JArr xs \<Rightarrow> xs | _ \<Rightarrow> [v]) vs)"

section \<open>Intent (IntentParser)\<close>

datatype QueryIntent =
    CITY_INFO
  | CITY_COMPARISON
  | NEIGHBORHOOD_RECOMMENDATION
  | HOUSING_MARKET
  | JOB_OPPORTUNITIES
  | SCHOOL_DISTRICTS
  | TRANSPORTATION
  | COST_OF_LIVING
  | LIFESTYLE_MATCH
  | RELOCATION_LOGISTICS
  | GENERAL_ADVICE
  | OTHER

text \<open>
  Of \<^verbatim>\<open>LocationInfo\<close> and \<^verbatim>\<open>ParsedIntent\<close> the fields the orchestrator and the fusion
  engine read. \<^verbatim>\<open>cities\<close> is \<open>None\<close> when the property is missing, which both read
  as \<^verbatim>\<open>locations.cities || []\<close>.
\<close>

record LocationInfo =
  cities :: "string list option"

record ParsedIntent =
  intent :: QueryIntent
  locations :: LocationInfo
  originalQuery :: string

definition citiesOf :: "ParsedIntent \<Rightarrow> string list" where
  "citiesOf parsedIntent =
     (case cities (locations parsedIntent) of None \<Rightarrow> [] | Some cs \<Rightarrow> cs)"

text \<open>
  \<^verbatim>\<open>APIResults\<close>: the object \<^verbatim>\<open>callMultipleApis\<close> fills, one property per API name.
  A property that was never set reads \<^verbatim>\<open>undefined\<close>.
\<close>

type_synonym APIResults = "string \<rightharpoonup> json"

definition resultOf :: "APIResults \<Rightarrow> string \<Rightarrow> json" where
  "resultOf apiResults apiName =
     (case apiResults apiName of None \<Rightarrow> JUndefined | Some v \<Rightarrow> v)"


section \<open>Fusion engine (DataFusionEngine)\<close>

text \<open>
  \<^verbatim>\<open>CityData\<close>. An optional field is \<open>None\<close> while the property reads \<^verbatim>\<open>undefined\<close>;
  \<^verbatim>\<open>fullName\<close> holds the value assigned to it (\<^verbatim>\<open>undefined\<close> at first).
  \<^verbatim>\<open>highlights\<close> is never written by the engine and is left out.
  The objects built for \<^verbatim>\<open>housingMarket\<close>, \<^verbatim>\<open>jobMarket\<close>, \<^verbatim>\<open>transportation\<close> and
  \<^verbatim>\<open>schools\<close> are JSON objects with the properties \<^verbatim>\<open>summary\<close>, \<^verbatim>\<open>sources\<close> and
  \<^verbatim>\<open>highlights\<close>.
\<close>

record CityData =
  name :: string
  fullName :: json
  scores :: "(string \<times> rat) list option"
  summary :: "string option"
  neighborhoods :: "json list option"
  housingMarket :: "json option"
  jobMarket :: "json option"
  transportation :: "json option"
  schools :: "json option"
  news :: "json list option"
  webResults :: "json list option"

record category_result =
  best :: string
  difference :: string

record comparison_result =
  winner :: string
  categories :: "(string \<times> category_result) list"

record FusedData =
  cities_f :: "CityData list"
  comparison :: "comparison_result option"
  generalInfo :: "json list option"
  originalQuery_f :: string
  intent_f :: QueryIntent
  error_f :: "string option"

subsection \<open>\<^verbatim>\<open>extractScores\<close>\<close>

definition categoryMapping :: "(string \<times> string) list" where
  "categoryMapping =
     [(''Housing'', ''housing''),
      (''Cost of Living'', ''costOfLiving''),
      (''Safety'', ''safety''),
      (''Education'', ''education''),
      (''Economy'', ''economy''),
      (''Environmental Quality'', ''environment''),
      (''Healthcare'', ''healthcare''),
      (''Business Freedom'', ''business''),
      (''Outdoors'', ''outdoors''),
      (''Commute'', ''commute''),
      (''Leisure & Culture'', ''culture''),
      (''Tolerance'', ''tolerance''),
      (''Internet Access'', ''internet''),
      (''Startups'', ''startups'')]"

text \<open>
  \<^verbatim>\<open>parseFloat(x.toFixed(1))\<close> on exact values: the nearest multiple of 1/10, a tie
  going away from zero.
\<close>

definition toFixed1 :: "rat \<Rightarrow> rat" where
  "toFixed1 x = sgn x * of_int \<lfloor>\<bar>x\<bar> * 10 + 1 / 2\<rfloor> / 10"

text \<open>
  \<^verbatim>\<open>categoryMapping[name] || name.toLowerCase().replace(/\s+/g, '')\<close>; \<open>None\<close> is the
  TypeError of a \<^verbatim>\<open>name\<close> that has no \<^verbatim>\<open>toLowerCase\<close>. The lookup reads own
  properties; a category named like a member of \<^verbatim>\<open>Object.prototype\<close> is outside the model.
\<close>

definition mappedNameOf :: "(json \<Rightarrow> string) \<Rightarrow> json \<Rightarrow> string option" where
  "mappedNameOf str nm =
     (case map_of categoryMapping (case nm of JStr s \<Rightarrow> s | _ \<Rightarrow> str nm) of
        Some mapped \<Rightarrow> Some mapped
      | None \<Rightarrow> (case nm of JStr s \<Rightarrow> Some (replaceSpaces [] (toLowerCase s)) | _ \<Rightarrow> None))"

text \<open>The \<^verbatim>\<open>forEach\<close> over the categories; \<open>None\<close> when its body throws.\<close>

fun scoreCategories ::
  "(json \<Rightarrow> string) \<Rightarrow> json list \<Rightarrow> (string \<times> rat) list \<Rightarrow> (string \<times> rat) list option" where
  "scoreCategories str [] acc = Some acc"
| "scoreCategories str (category # rest) acc =
     do {
       nm \<leftarrow> getProp category ''name'';
       mappedName \<leftarrow> mappedNameOf str nm;
       score \<leftarrow> getProp category ''score_out_of_10'';
       v \<leftarrow> (case score of JNum x \<Rightarrow> Some (toFixed1 x) | _ \<Rightarrow> None);
       scoreCategories str rest (setKey acc mappedName v)
     }"

definition extractScores :: "(json \<Rightarrow> string) \<Rightarrow> json \<Rightarrow> (string \<times> rat) list option" where
  "extractScores str cityInfo =
     (if \<not> truthy cityInfo \<or> \<not> truthy (field cityInfo ''urbanArea'')
           \<or> \<not> truthy (field (field cityInfo ''urbanArea'') ''scores'')
      then None
      else
        (case js_or (field (field (field cityInfo ''urbanArea'') ''scores'') ''categories'') (JArr []) of
           JArr cats \<Rightarrow> scoreCategories str cats []
         | _ \<Rightarrow> None))"

subsection \<open>\<^verbatim>\<open>extractNeighborhoods\<close>, \<^verbatim>\<open>extractNews\<close>, \<^verbatim>\<open>extractWebResults\<close>\<close>

text \<open>
  The callback of each \<^verbatim>\<open>map\<close> is \<open>None\<close> where it throws; the \<^verbatim>\<open>catch\<close> of the
  extractor turns any throw, and a value without \<^verbatim>\<open>map\<close>, into \<^verbatim>\<open>[]\<close>.
\<close>

definition neighborhoodOf :: "json \<Rightarrow> json option" where
  "neighborhoodOf feature =
     do {
       properties \<leftarrow> getProp feature ''properties'';
       geometry \<leftarrow> getProp feature ''geometry'';
       Some (JObj
         [(''name'', js_or (js_or (field properties ''neighborhood'') (field properties ''name''))
                      (JStr ''Unknown'')),
          (''city'', js_or (field properties ''city'') (JStr ''Unknown'')),
          (''state'', js_or (field properties ''state'') (JStr ''Unknown'')),
          (''country'', js_or (field properties ''country'') (JStr ''Unknown'')),
          (''coordinates'', js_or (field geometry ''coordinates'') JNull)])
     }"

definition extractNeighborhoods :: "json \<Rightarrow> json list" where
  "extractNeighborhoods neighborhoodInfo =
     (if \<not> truthy neighborhoodInfo \<or> \<not> truthy (field neighborhoodInfo ''features'') then []
      else
        (case field neighborhoodInfo ''features'' of
           JArr features \<Rightarrow>
             (case those (map neighborhoodOf features) of None \<Rightarrow> [] | Some r \<Rightarrow> r)
         | _ \<Rightarrow> []))"

definition articleOf :: "json \<Rightarrow> json option" where
  "articleOf article =
     do {
       title \<leftarrow> getProp article ''title'';
       description \<leftarrow> getProp article ''description'';
       url \<leftarrow> getProp article ''url'';
       source \<leftarrow> getProp article ''source'';
       sourceName \<leftarrow> getProp source ''name'';
       publishedAt \<leftarrow> getProp article ''publishedAt'';
       Some (JObj
         [(''title'', title),
          (''description'', description),
          (''url'', url),
          (''source'', sourceName),
          (''publishedAt'', publishedAt)])
     }"

definition extractNews :: "json \<Rightarrow> json list" where
  "extractNews newsInfo =
     (if \<not> truthy newsInfo \<or> \<not> truthy (field newsInfo ''articles'') then []
      else
        (case field newsInfo ''articles'' of
           JArr articles \<Rightarrow>
             (case those (map articleOf articles) of None \<Rightarrow> [] | Some r \<Rightarrow> r)
         | _ \<Rightarrow> []))"

definition webResultOf :: "json \<Rightarrow> json option" where
  "webResultOf result =
     do {
       title \<leftarrow> getProp result ''title'';
       snippet \<leftarrow> getProp result ''snippet'';
       link \<leftarrow> getProp result ''link'';
       Some (JObj [(''title'', title), (''description'', snippet), (''url'', link)])
     }"

definition extractWebResults :: "json \<Rightarrow> json list" where
  "extractWebResults webSearch =
     (if \<not> truthy webSearch \<or> \<not> truthy (field webSearch ''organic'') then []
      else
        (case field webSearch ''organic'' of
           JArr organic \<Rightarrow>
             (case those (map webResultOf organic) of None \<Rightarrow> [] | Some r \<Rightarrow> r)
         | _ \<Rightarrow> []))"


subsection \<open>\<^verbatim>\<open>processCityData\<close>\<close>

text \<open>
  The object literal \<^verbatim>\<open>{summary: ..., sources: ..., highlights: ...}\<close> the source writes
  out four times, for \<^verbatim>\<open>housingMarket\<close>, \<^verbatim>\<open>jobOpportunities\<close>, \<^verbatim>\<open>transportation\<close>
  and \<^verbatim>\<open>schoolDistricts\<close>. \<open>None\<close> is a TypeError: \<^verbatim>\<open>summaries\<close> is truthy and has
  no \<^verbatim>\<open>map\<close>, or one of its elements is \<^verbatim>\<open>null\<close>.
\<close>

definition summaryObject :: "(json \<Rightarrow> string) \<Rightarrow> json \<Rightarrow> json option" where
  "summaryObject str payload =
     (let summaries = field payload ''summaries'' in
      if truthy summaries then
        (case summaries of
           JArr ss \<Rightarrow>
             do {
               texts \<leftarrow> those (map (\<lambda>s. getProp s ''summary'') ss);
               srcs \<leftarrow> those (map (\<lambda>s. getProp s ''source'') ss);
               keyPoints \<leftarrow> those (map (\<lambda>s. getProp s ''keyPoints'') ss);
               Some (JObj
                 [(''summary'', JStr (joinWith str '' '' texts)),
                  (''sources'', JArr srcs),
                  (''highlights'', JArr (flatten1 (map (\<lambda>k. js_or k (JArr [])) keyPoints)))])
             }
         | _ \<Rightarrow> None)
      else
        Some (JObj
          [(''summary'', JUndefined), (''sources'', JUndefined), (''highlights'', JArr [])]))"

text \<open>A field set under \<^verbatim>\<open>if (apiResults.x)\<close>, left alone otherwise.\<close>

definition whenTruthy :: "json \<Rightarrow> 'a \<Rightarrow> 'a option" where
  "whenTruthy v x = (if truthy v then Some x else None)"

text \<open>The numeric entries of \<^verbatim>\<open>fallbackData.estimatedScores\<close>, written into \<^verbatim>\<open>{}\<close>.\<close>

definition estimatedScoresOf :: "json \<Rightarrow> (string \<times> rat) list" where
  "estimatedScoresOf estimatedScores =
     (if truthy estimatedScores then
        fold (\<lambda>(key, val) acc. case val of JNum x \<Rightarrow> setKey acc key x | _ \<Rightarrow> acc)
             (ownEntries estimatedScores) []
      else [])"

text \<open>The block under \<^verbatim>\<open>if (apiResults.cityInfo)\<close>.\<close>

definition processCityInfo :: "(json \<Rightarrow> string) \<Rightarrow> string \<Rightarrow> json \<Rightarrow> CityData \<Rightarrow> CityData" where
  "processCityInfo str cityName cityInfo cityData =
     (let urbanArea = field cityInfo ''urbanArea'';
          city = field cityInfo ''city'';
          fallbackData = field cityInfo ''fallbackData'';
          cityData1 =
            (if truthy urbanArea then
               cityData\<lparr>fullName := js_or (field urbanArea ''fullName'') (field urbanArea ''name''),
                         scores := extractScores str cityInfo\<rparr>
             else if truthy city then
               cityData\<lparr>fullName := js_or (field city ''full_name'') (field city ''name'')\<rparr>
             else cityData)
      in if truthy fallbackData then
           cityData1\<lparr>summary := Some (''Information about '' @ cityName @ '' (using fallback data)''),
                      scores := Some (estimatedScoresOf (field fallbackData ''estimatedScores''))\<rparr>
         else cityData1)"

text \<open>
  \<^verbatim>\<open>if (apiResults.x) { cityData.y = {summary: ..., sources: ..., highlights: ...} }\<close>:
  the value of the field afterwards, \<open>None\<close> when building the object throws.
\<close>

definition summaryField :: "(json \<Rightarrow> string) \<Rightarrow> json \<Rightarrow> json option option" where
  "summaryField str payload =
     (if truthy payload then map_option Some (summaryObject str payload) else Some None)"

text \<open>\<open>None\<close>: \<^verbatim>\<open>processCityData\<close> throws.\<close>

definition processCityData :: "(json \<Rightarrow> string) \<Rightarrow> string \<Rightarrow> APIResults \<Rightarrow> CityData option" where
  "processCityData str cityName apiResults =
     (let cityData =
            \<lparr>name = cityName, fullName = JUndefined, scores = None, summary = None,
             neighborhoods = None, housingMarket = None, jobMarket = None,
             transportation = None, schools = None, news = None, webResults = None\<rparr>;
          cityData1 =
            (if truthy (resultOf apiResults ''cityInfo'')
             then processCityInfo str cityName (resultOf apiResults ''cityInfo'') cityData
             else cityData);
          cityData2 = cityData1
            \<lparr>neighborhoods := whenTruthy (resultOf apiResults ''neighborhoods'')
                (extractNeighborhoods (resultOf apiResults ''neighborhoods'')),
             news := whenTruthy (resultOf apiResults ''news'')
                (extractNews (resultOf apiResults ''news'')),
             webResults := whenTruthy (resultOf apiResults ''webSearch'')
                (extractWebResults (resultOf apiResults ''webSearch''))\<rparr>
      in do {
           housing \<leftarrow> summaryField str (resultOf apiResults ''housingMarket'');
           jobs \<leftarrow> summaryField str (resultOf apiResults ''jobOpportunities'');
           transport \<leftarrow> summaryField str (resultOf apiResults ''transportation'');
           districts \<leftarrow> summaryField str (resultOf apiResults ''schoolDistricts'');
           Some (cityData2\<lparr>housingMarket := housing, jobMarket := jobs,
                            transportation := transport, schools := districts\<rparr>)
         })"

subsection \<open>\<^verbatim>\<open>compareCities\<close>\<close>

text \<open>
  \<open>fmt a b\<close> stands for \<^verbatim>\<open>(a - b).toFixed(1)\<close>, the formatted floating-point difference.
  \<^verbatim>\<open>city.scores?.[category] || 0\<close> reads a missing category as 0.
\<close>

definition scoreOr0 :: "(string \<times> rat) list \<Rightarrow> string \<Rightarrow> rat" where
  "scoreOr0 s category = (case map_of s category of None \<Rightarrow> 0 | Some v \<Rightarrow> v)"

text \<open>The state of the \<^verbatim>\<open>forEach\<close>: \<^verbatim>\<open>categories\<close>, \<^verbatim>\<open>city1Wins\<close>, \<^verbatim>\<open>city2Wins\<close>.\<close>

definition compareCategory ::
  "(rat \<Rightarrow> rat \<Rightarrow> string) \<Rightarrow> string \<Rightarrow> (string \<times> rat) list \<Rightarrow> string \<Rightarrow> (string \<times> rat) list
     \<Rightarrow> string \<Rightarrow> (string \<times> category_result) list \<times> nat \<times> nat
     \<Rightarrow> (string \<times> category_result) list \<times> nat \<times> nat" where
  "compareCategory fmt name1 scores1 name2 scores2 category st =
     (case st of (cats, city1Wins, city2Wins) \<Rightarrow>
        let score1 = scoreOr0 scores1 category;
            score2 = scoreOr0 scores2 category
        in if score1 > score2 then
             (setKey cats category \<lparr>best = name1, difference = fmt score1 score2\<rparr>,
              city1Wins + 1, city2Wins)
           else if score2 > score1 then
             (setKey cats category \<lparr>best = name2, difference = fmt score2 score1\<rparr>,
              city1Wins, city2Wins + 1)
           else
             (setKey cats category \<lparr>best = ''tie'', difference = ''0.0''\<rparr>,
              city1Wins, city2Wins))"

definition compareCities ::
  "(rat \<Rightarrow> rat \<Rightarrow> string) \<Rightarrow> CityData list \<Rightarrow> comparison_result option" where
  "compareCities fmt cs =
     (case cs of
        city1 # city2 # _ \<Rightarrow>
          (case (scores city1, scores city2) of
             (Some scores1, Some scores2) \<Rightarrow>
               let allCategories = dedupe (map fst scores1 @ map fst scores2);
                   (cats, city1Wins, city2Wins) =
                     fold (compareCategory fmt (name city1) scores1 (name city2) scores2)
                          allCategories ([], 0, 0)
               in Some \<lparr>winner = (if city1Wins > city2Wins then name city1
                                  else if city2Wins > city1Wins then name city2
                                  else ''tie''),
                        categories = cats\<rparr>
           | _ \<Rightarrow> None)
      | _ \<Rightarrow> None)"

subsection \<open>\<^verbatim>\<open>merge\<close>\<close>

text \<open>The \<^verbatim>\<open>try\<close> block of \<^verbatim>\<open>merge\<close>; \<open>None\<close> when \<^verbatim>\<open>processCityData\<close> throws.\<close>

definition merge_try ::
  "(json \<Rightarrow> string) \<Rightarrow> (rat \<Rightarrow> rat \<Rightarrow> string) \<Rightarrow> ParsedIntent \<Rightarrow> APIResults \<Rightarrow> FusedData option" where
  "merge_try str fmt parsedIntent apiResults =
     do {
       processed \<leftarrow> those (map (\<lambda>cityName. processCityData str cityName apiResults)
                               (citiesOf parsedIntent));
       withDefault \<leftarrow>
         (if length (citiesOf parsedIntent) = 0 \<and>
             (truthy (resultOf apiResults ''cityInfo'') \<or> truthy (resultOf apiResults ''neighborhoods''))
          then map_option (\<lambda>cityData. processed @ [cityData])
                 (processCityData str ''New York'' apiResults)
          else Some processed);
       Some \<lparr>cities_f = withDefault,
             comparison = (if length withDefault \<ge> 2 then compareCities fmt withDefault else None),
             generalInfo = (if length withDefault = 0 \<and> truthy (resultOf apiResults ''webSearch'')
                            then Some (extractWebResults (resultOf apiResults ''webSearch''))
                            else None),
             originalQuery_f = originalQuery parsedIntent,
             intent_f = intent parsedIntent,
             error_f = None\<rparr>
     }"

definition merge ::
  "(json \<Rightarrow> string) \<Rightarrow> (rat \<Rightarrow> rat \<Rightarrow> string) \<Rightarrow> ParsedIntent \<Rightarrow> APIResults \<Rightarrow> FusedData" where
  "merge str fmt parsedIntent apiResults =
     (case merge_try str fmt parsedIntent apiResults of
        Some fusedData \<Rightarrow> fusedData
      | None \<Rightarrow>
          \<lparr>cities_f = [], comparison = None, generalInfo = None,
           originalQuery_f = originalQuery parsedIntent,
           intent_f = intent parsedIntent,
           error_f = Some ''Failed to process API data''\<rparr>)"


section \<open>Orchestrator (modules/orchestration/APIOrchestrator)\<close>

definition getRequiredApis :: "QueryIntent \<Rightarrow> string list" where
  "getRequiredApis i =
     (let baseApis = [''webSearch''] in
      case i of
        CITY_INFO \<Rightarrow> baseApis @ [''cityInfo'', ''news'']
      | CITY_COMPARISON \<Rightarrow> baseApis @ [''cityInfo'', ''costOfLiving'', ''housingMarket'']
      | NEIGHBORHOOD_RECOMMENDATION \<Rightarrow> baseApis @ [''cityInfo'', ''neighborhoods'']
      | HOUSING_MARKET \<Rightarrow> baseApis @ [''cityInfo'', ''housingMarket'', ''neighborhoods'']
      | JOB_OPPORTUNITIES \<Rightarrow> baseApis @ [''cityInfo'', ''jobOpportunities'']
      | SCHOOL_DISTRICTS \<Rightarrow> baseApis @ [''cityInfo'', ''schoolDistricts'']
      | TRANSPORTATION \<Rightarrow> baseApis @ [''cityInfo'', ''transportation'']
      | COST_OF_LIVING \<Rightarrow> baseApis @ [''cityInfo'', ''costOfLiving'', ''housingMarket'']
      | LIFESTYLE_MATCH \<Rightarrow> baseApis @ [''cityInfo'', ''neighborhoods'', ''news'']
      | RELOCATION_LOGISTICS \<Rightarrow> baseApis @ [''cityInfo'']
      | GENERAL_ADVICE \<Rightarrow> baseApis
      | OTHER \<Rightarrow> baseApis)"

text \<open>
  The adapters are network calls: \<open>env a args k\<close> is the outcome of the \<open>k\<close>-th invocation
  of adapter \<open>a\<close> on the arguments \<open>args\<close> within one \<^verbatim>\<open>withRetry\<close>.
\<close>

datatype adapter =
    GetCityInfo
  | GetSerperData
  | GetNewsData
  | GetRadarData
  | GetHousingMarketData
  | GetJobOpportunitiesData
  | GetSchoolDistrictInfo
  | GetPublicTransportationInfo
  | CompareCostOfLiving
  | GetReliableCityData
  | SummarizeWebpage

type_synonym providers = "adapter \<Rightarrow> json list \<Rightarrow> nat \<Rightarrow> js_error + json"

text \<open>
  \<^verbatim>\<open>x.k\<close> as a statement that may throw. The message of the TypeError is the engine's
  (here V8's).
\<close>

definition typeError :: "json \<Rightarrow> string \<Rightarrow> js_error" where
  "typeError v k =
     JsError (''Cannot read properties of '' @ (if v = JNull then ''null'' else ''undefined'')
              @ '' (reading '' @ [CHR 0x27] @ k @ [CHR 0x27] @ '')'')"

definition getPropE :: "json \<Rightarrow> string \<Rightarrow> js_error + json" where
  "getPropE v k = (case getProp v k of None \<Rightarrow> Inl (typeError v k) | Some x \<Rightarrow> Inr x)"

text \<open>An adapter called on properties of \<^verbatim>\<open>params\<close>, which are read at every attempt.\<close>

fun argsOf :: "json \<Rightarrow> string list \<Rightarrow> js_error + json list" where
  "argsOf params [] = Inr []"
| "argsOf params (k # ks) =
     (case getPropE params k of
        Inl e \<Rightarrow> Inl e
      | Inr v \<Rightarrow> (case argsOf params ks of Inl e \<Rightarrow> Inl e | Inr vs \<Rightarrow> Inr (v # vs)))"

definition adapterCall :: "providers \<Rightarrow> adapter \<Rightarrow> json \<Rightarrow> string list \<Rightarrow> nat \<Rightarrow> js_error + json" where
  "adapterCall env a params ks k =
     (case argsOf params ks of Inl e \<Rightarrow> Inl e | Inr args \<Rightarrow> env a args k)"

definition radarRequest :: "json \<Rightarrow> js_error + json" where
  "radarRequest params =
     (case getPropE params ''latitude'' of
        Inl e \<Rightarrow> Inl e
      | Inr latitude \<Rightarrow>
          (case getPropE params ''longitude'' of
             Inl e \<Rightarrow> Inl e
           | Inr longitude \<Rightarrow>
               Inr (JObj
                 [(''type'', JStr ''search''),
                  (''latitude'', latitude),
                  (''longitude'', longitude),
                  (''radius'', JNum 5000),
                  (''categories'', JArr [JStr ''residential'', JStr ''neighborhood'']),
                  (''limit'', JNum 20)])))"

text \<open>The \<^verbatim>\<open>try\<close> block of \<^verbatim>\<open>callApi\<close>: \<open>Inl\<close> when it throws.\<close>

definition callApi_try :: "providers \<Rightarrow> string \<Rightarrow> json \<Rightarrow> js_error option + json" where
  "callApi_try env apiName params =
     (if apiName = ''cityInfo'' then
        fst (withRetry (adapterCall env GetCityInfo params [''city'']) 2 1000)
      else if apiName = ''webSearch'' then
        fst (withRetry (adapterCall env GetSerperData params [''query'']) 2 1000)
      else if apiName = ''news'' then
        fst (withRetry (adapterCall env GetNewsData params [''city'']) 2 1000)
      else if apiName = ''neighborhoods'' then
        fst (withRetry
          (\<lambda>k. case radarRequest params of Inl e \<Rightarrow> Inl e | Inr req \<Rightarrow> env GetRadarData [req] k)
          2 1000)
      else if apiName = ''housingMarket'' then
        fst (withRetry (adapterCall env GetHousingMarketData params [''city'']) 2 1000)
      else if apiName = ''jobOpportunities'' then
        fst (withRetry (adapterCall env GetJobOpportunitiesData params [''city'', ''industry'']) 2 1000)
      else if apiName = ''schoolDistricts'' then
        fst (withRetry (adapterCall env GetSchoolDistrictInfo params [''city'']) 2 1000)
      else if apiName = ''transportation'' then
        fst (withRetry (adapterCall env GetPublicTransportationInfo params [''city'']) 2 1000)
      else if apiName = ''costOfLiving'' then
        (case getPropE params ''cityB'' of
           Inl e \<Rightarrow> Inl (Some e)
         | Inr cityB \<Rightarrow>
             if truthy cityB
             then fst (withRetry (adapterCall env CompareCostOfLiving params [''cityA'', ''cityB'']) 2 1000)
             else fst (withRetry (adapterCall env GetReliableCityData params [''city'']) 2 1000))
      else if apiName = ''summaries'' then
        fst (withRetry (adapterCall env SummarizeWebpage params [''url'']) 2 1000)
      else Inr (JObj [(''error'', JStr (''Unknown API: '' @ apiName))]))"

text \<open>\<^verbatim>\<open>error instanceof Error ? error.message : 'Unknown error'\<close>\<close>

definition errorDetails :: "js_error option \<Rightarrow> string" where
  "errorDetails e = (case e of Some (JsError message) \<Rightarrow> message | _ \<Rightarrow> ''Unknown error'')"

definition errorResult :: "string \<Rightarrow> js_error option \<Rightarrow> json" where
  "errorResult apiName e =
     JObj [(''error'', JStr (''Error calling '' @ apiName)), (''details'', JStr (errorDetails e))]"

definition callApi :: "providers \<Rightarrow> string \<Rightarrow> json \<Rightarrow> js_error option + json" where
  "callApi env apiName params =
     (case callApi_try env apiName params of
        Inr v \<Rightarrow> Inr v
      | Inl e \<Rightarrow> Inr (errorResult apiName e))"

text \<open>
  \<^verbatim>\<open>callMultipleApis\<close>. \<open>apiEntry\<close> is what the \<^verbatim>\<open>then\<close> and \<^verbatim>\<open>catch\<close> handlers of one
  call store under its name. The calls run concurrently and do not share state in the model, so
  the object they fill is the same in whatever order they complete. \<^verbatim>\<open>params[apiName]\<close>
  is read while the calls are set up, outside every \<^verbatim>\<open>catch\<close>.
\<close>

definition apiEntry :: "providers \<Rightarrow> json \<Rightarrow> string \<Rightarrow> json" where
  "apiEntry env params apiName =
     (case callApi env apiName (js_or (field params apiName) params) of
        Inr v \<Rightarrow> v
      | Inl e \<Rightarrow> errorResult apiName e)"

definition callMultipleApis :: "providers \<Rightarrow> string list \<Rightarrow> json \<Rightarrow> js_error option + APIResults" where
  "callMultipleApis env apiNames params =
     (if apiNames \<noteq> [] \<and> getProp params (hd apiNames) = None
      then Inl (Some (typeError params (hd apiNames)))
      else
        Inr (fold (\<lambda>apiName results. results(apiName \<mapsto> apiEntry env params apiName))
                  apiNames Map.empty))"

definition buildApiQueries :: "ParsedIntent \<Rightarrow> json" where
  "buildApiQueries parsedIntent =
     (case citiesOf parsedIntent of
        primaryCity # others \<Rightarrow>
          (let queries =
             [(''cityInfo'', JObj [(''city'', JStr primaryCity)]),
              (''news'', JObj [(''city'', JStr primaryCity)]),
              (''neighborhoods'', JObj [(''city'', JStr primaryCity)]),
              (''housingMarket'', JObj [(''city'', JStr primaryCity)]),
              (''jobOpportunities'', JObj [(''city'', JStr primaryCity)]),
              (''schoolDistricts'', JObj [(''city'', JStr primaryCity)]),
              (''transportation'', JObj [(''city'', JStr primaryCity)]),
              (''costOfLiving'', JObj [(''city'', JStr primaryCity)]),
              (''webSearch'', JObj [(''query'',
                 JStr (primaryCity @ '' city information living cost housing jobs schools''))])]
           in case others of
                [] \<Rightarrow> JObj queries
              | secondCity # _ \<Rightarrow>
                  JObj (setKey queries ''costOfLiving''
                    (JObj [(''cityA'', JStr primaryCity), (''cityB'', JStr secondCity)])))
      | [] \<Rightarrow> JObj [(''webSearch'', JObj [(''query'', JStr (originalQuery parsedIntent))])])"

definition getCachedCityData :: "int \<Rightarrow> api_cache \<Rightarrow> string \<Rightarrow> json" where
  "getCachedCityData now apiCache cityName =
     fst (getFromCache now apiCache (''city_data_'' @ replaceSpaces ''_'' (toLowerCase cityName)))"

text \<open>\<^verbatim>\<open>if (cachedData.k && !results.apiName) results.apiName = cachedData.k\<close>\<close>

definition fillFromCache :: "json \<Rightarrow> string \<Rightarrow> string \<Rightarrow> APIResults \<Rightarrow> APIResults" where
  "fillFromCache cachedData k apiName results =
     (if truthy (field cachedData k) \<and> \<not> truthy (resultOf results apiName)
      then results(apiName \<mapsto> field cachedData k)
      else results)"

text \<open>
  \<^verbatim>\<open>fetch\<close>: the value it resolves to. The lookup's lazy eviction and the
  \<^verbatim>\<open>getAllCityData\<close> call it starts without awaiting act on the cache only.
\<close>

definition fetch :: "providers \<Rightarrow> int \<Rightarrow> api_cache \<Rightarrow> ParsedIntent \<Rightarrow> js_error option + APIResults" where
  "fetch env now apiCache parsedIntent =
     (case callMultipleApis env (getRequiredApis (intent parsedIntent)) (buildApiQueries parsedIntent) of
        Inl e \<Rightarrow> Inl e
      | Inr results \<Rightarrow>
          (case citiesOf parsedIntent of
             [] \<Rightarrow> Inr results
           | primaryCity # _ \<Rightarrow>
               (let cachedData = getCachedCityData now apiCache primaryCity in
                if truthy cachedData then
                  Inr (fillFromCache cachedData ''news'' ''news''
                        (fillFromCache cachedData ''serper'' ''webSearch''
                          (fillFromCache cachedData ''radar'' ''neighborhoods'' results)))
                else Inr results)))"


section \<open>Summaries of search results (api-tools)\<close>






section \<open>Shapes of provider results\<close>

text \<open>
  An error-shaped result: an object with a truthy \<^verbatim>\<open>error\<close> property and none of the
  properties the fusion engine reads data from. The objects \<^verbatim>\<open>callApi\<close> builds in its
  \<^verbatim>\<open>catch\<close> and the \<^verbatim>\<open>{error, details}\<close> objects the adapters return are of this shape.
\<close>

definition dataProperties :: "string list" where
  "dataProperties =
     [''urbanArea'', ''city'', ''fallbackData'', ''features'', ''articles'', ''organic'', ''summaries'']"

definition errorShaped :: "json \<Rightarrow> bool" where
  "errorShaped v =
     (case v of
        JObj kvs \<Rightarrow> truthy (field v ''error'') \<and> list_all (\<lambda>k. map_of kvs k = None) dataProperties
      | _ \<Rightarrow> False)"

text \<open>
  The payloads the summarizing adapters return carry \<^verbatim>\<open>summaries\<close> as an array of objects,
  or not at all. \<^verbatim>\<open>processCityData\<close> throws on any other truthy \<^verbatim>\<open>summaries\<close>.
\<close>

definition summariesWellFormed :: "json \<Rightarrow> bool" where
  "summariesWellFormed payload =
     (case field payload ''summaries'' of
        JArr ss \<Rightarrow> list_all (\<lambda>s. s \<noteq> JUndefined \<and> s \<noteq> JNull) ss
      | v \<Rightarrow> \<not> truthy v)"

definition summaryApis :: "string list" where
  "summaryApis = [''housingMarket'', ''jobOpportunities'', ''transportation'', ''schoolDistricts'']"

definition emptySummaryObject :: json where
  "emptySummaryObject =
     JObj [(''summary'', JUndefined), (''sources'', JUndefined), (''highlights'', JArr [])]"

section \<open>The overall winner in the words of the specification\<close>

text \<open>
  The city that wins a strict majority of the compared categories, \<^verbatim>\<open>tie\<close> otherwise.
  It is compared with what \<^verbatim>\<open>compareCities\<close> returns.
\<close>

definition strictMajorityWinner :: "string \<Rightarrow> string \<Rightarrow> nat \<Rightarrow> nat \<Rightarrow> nat \<Rightarrow> string" where
  "strictMajorityWinner name1 name2 wins1 wins2 compared =
     (if 2 * wins1 > compared then name1
      else if 2 * wins2 > compared then name2
      else ''tie'')"


section \<open>Example inputs\<close>

text \<open>\<^verbatim>\<open>String(v)\<close> and \<^verbatim>\<open>(a - b).toFixed(1)\<close> for the examples, which apply the first to no
  value and the second to exact differences only.\<close>

definition objectString :: "json \<Rightarrow> string" where
  "objectString v = ''[object Object]''"

definition toFixed1String :: "rat \<Rightarrow> string" where
  "toFixed1String x =
     (let n = nat \<lfloor>\<bar>x\<bar> * 10 + 1 / 2\<rfloor>
      in (if x < 0 then ''-'' else []) @ nat_to_string (n div 10) @ ''.'' @ nat_to_string (n mod 10))"

definition exactDifference :: "rat \<Rightarrow> rat \<Rightarrow> string" where
  "exactDifference a b = toFixed1String (a - b)"

definition cityWithScores :: "string \<Rightarrow> (string \<times> rat) list \<Rightarrow> CityData" where
  "cityWithScores cityName sc =
     \<lparr>name = cityName, fullName = JUndefined, scores = Some sc, summary = None,
      neighborhoods = None, housingMarket = None, jobMarket = None,
      transportation = None, schools = None, news = None, webResults = None\<rparr>"


text \<open>An operation that fails \<open>k\<close> times and then succeeds, and one that always fails.\<close>

definition fails_then_ok :: "nat \<Rightarrow> nat \<Rightarrow> js_error + json" where
  "fails_then_ok k i = (if i < k then Inl (JsError ''503'') else Inr (JStr ''ok''))"


text \<open>
  A history of the rate limiter: a provider is first checked at time 0, six requests are registered
  for it, and at time 1000 a quota rejection asks for a backoff of one second.
\<close>

definition six_requests :: rate_limits where
  "six_requests =
     registerRequest 900 ''news'' (registerRequest 800 ''news'' (registerRequest 700 ''news''
       (registerRequest 600 ''news'' (registerRequest 500 ''news'' (registerRequest 400 ''news''
         (snd (canMakeRequest 0 ''news'' Map.empty)))))))"

definition after_short_backoff :: rate_limits where
  "after_short_backoff = handleRateLimitError 1000 ''news'' 1 six_requests"

text \<open>
  Another history: first checked at time 0, five requests registered in the last second
  of the window, and one more right after the window has turned at time 60001.
\<close>

definition five_late_requests :: rate_limits where
  "five_late_requests =
     registerRequest 59900 ''news'' (registerRequest 59800 ''news'' (registerRequest 59700 ''news''
       (registerRequest 59600 ''news'' (registerRequest 59500 ''news''
         (snd (canMakeRequest 0 ''news'' Map.empty))))))"

definition one_more_request :: rate_limits where
  "one_more_request =
     registerRequest 60001 ''news'' (snd (canMakeRequest 60001 ''news'' five_late_requests))"


text \<open>Results in which the calls for \<^verbatim>\<open>news\<close> and \<^verbatim>\<open>housingMarket\<close> failed.\<close>

definition newsAndHousingFailed :: APIResults where
  "newsAndHousingFailed =
     [''news'' \<mapsto> errorResult ''news'' (Some (JsError ''timeout'')),
      ''housingMarket'' \<mapsto> errorResult ''housingMarket'' (Some (JsError ''timeout''))]"


text \<open>
  A request that names no city, and results that hold the scores of an urban area and
  one neighbourhood.
\<close>

definition noCityRequest :: ParsedIntent where
  "noCityRequest =
     \<lparr>intent = NEIGHBORHOOD_RECOMMENDATION, locations = \<lparr>cities = Some []\<rparr>,
      originalQuery = ''which neighborhood is quiet''\<rparr>"

definition sohoResults :: APIResults where
  "sohoResults =
     [''cityInfo'' \<mapsto>
        JObj [(''urbanArea'', JObj
          [(''fullName'', JStr ''New York, United States''),
           (''scores'', JObj [(''categories'', JArr
              [JObj [(''name'', JStr ''Housing''), (''score_out_of_10'', JNum 1)],
               JObj [(''name'', JStr ''Cost of Living''),
                     (''score_out_of_10'', JNum (233 / 100))]])])])],
      ''neighborhoods'' \<mapsto>
        JObj [(''features'', JArr
          [JObj [(''properties'', JObj [(''name'', JStr ''SoHo''), (''city'', JStr ''Manhattan'')]),
                 (''geometry'', JObj [(''coordinates'', JArr [JNum (-74), JNum 40])])]])]]"





text \<open>
  The partial failure of the specification: a request about Austin whose intent needs
  \<^verbatim>\<open>webSearch\<close>, \<^verbatim>\<open>cityInfo\<close> and \<^verbatim>\<open>news\<close>, and providers of which only the web search
  answers; every other call fails at every attempt.
\<close>

definition austinRequest :: ParsedIntent where
  "austinRequest =
     \<lparr>intent = CITY_INFO, locations = \<lparr>cities = Some [''Austin'']\<rparr>,
      originalQuery = ''tell me about Austin''\<rparr>"

definition onlySearchAnswers :: providers where
  "onlySearchAnswers a args k =
     (if a = GetSerperData
      then Inr (JObj [(''organic'', JArr
             [JObj [(''title'', JStr ''Austin''), (''snippet'', JStr ''Capital of Texas''),
                    (''link'', JStr ''https://example.org/austin'')]])])
      else Inl (JsError ''Request failed with status code 500''))"

text \<open>The result map \<^verbatim>\<open>fetch\<close> returns for that request from those providers.\<close>

definition austinResults :: APIResults where
  "austinResults =
     (case fetch onlySearchAnswers 0 Map.empty austinRequest of
        Inl e \<Rightarrow> Map.empty
      | Inr results \<Rightarrow> results)"


section \<open>Properties of the response cache\<close>

text \<open>
  C8. A value stored at time \<open>t\<close> and looked up at a time \<open>t'\<close> no more than the TTL later
  is returned unchanged and the cache keeps the entry; looked up when more than the TTL
  has passed, the lookup returns \<^verbatim>\<open>null\<close> and the cache it leaves no longer holds the key.
\<close>

theorem cache_round_trip:
  "(t' - t \<le> CACHE_TTL \<longrightarrow>
      getFromCache t' (storeInCache t c k v) k = (v, storeInCache t c k v)) \<and>
   (t' - t > CACHE_TTL \<longrightarrow>
      fst (getFromCache t' (storeInCache t c k v) k) = JNull \<and>
      snd (getFromCache t' (storeInCache t c k v) k) k = None \<and>
      fst (getFromCache t' (snd (getFromCache t' (storeInCache t c k v) k)) k) = JNull)"
  by (auto simp: getFromCache_def storeInCache_def)

theorem cache_round_trip_witness:
  "getFromCache 5 (storeInCache 0 Map.empty ''news_austin_{}'' (JStr ''x'')) ''news_austin_{}''
     = (JStr ''x'', storeInCache 0 Map.empty ''news_austin_{}'' (JStr ''x'')) \<and>
   fst (getFromCache 86400001 (storeInCache 0 Map.empty ''news_austin_{}'' (JStr ''x'')) ''news_austin_{}'') = JNull \<and>
   snd (getFromCache 86400001 (storeInCache 0 Map.empty ''news_austin_{}'' (JStr ''x'')) ''news_austin_{}'') ''news_austin_{}'' = None"
  using cache_round_trip [of 5 0 Map.empty "''news_austin_{}''" "JStr ''x''"]
        cache_round_trip [of 86400001 0 Map.empty "''news_austin_{}''" "JStr ''x''"]
  by (simp add: CACHE_TTL_def)

section \<open>Properties of the retry executors\<close>

lemma executeWithRetry_loop_stops_at:
  assumes bound: "n \<le> maxRetries cfg"
      and fails: "\<forall>i<n. \<exists>e. operation i = Inl e \<and> shouldRetry e"
      and stops: "\<forall>e. operation n = Inl e \<longrightarrow> n = maxRetries cfg \<or> \<not> shouldRetry e"
  shows "r \<le> n \<Longrightarrow>
         executeWithRetry_loop cfg operation shouldRetry r le =
           (map_sum Some id (operation n),
            concat (map (\<lambda>i. [AcquireToken, Call i, Sleep (calculateDelay cfg i)]) [r..<n])
              @ [AcquireToken, Call n])"
proof (induction "n - r" arbitrary: r le)
  case 0
  then have rn: "r = n" by simp
  show ?case
  proof (cases "operation n")
    case (Inl e)
    with stops have "n = maxRetries cfg \<or> \<not> shouldRetry e" by simp
    with Inl rn bound show ?thesis
      by (subst executeWithRetry_loop.simps) auto
  next
    case (Inr v)
    with rn bound show ?thesis
      by (subst executeWithRetry_loop.simps) simp
  qed
next
  case (Suc d)
  from Suc.hyps(2) have lt: "r < n" by arith
  with fails obtain e where e: "operation r = Inl e" "shouldRetry e" by blast
  have IH: "executeWithRetry_loop cfg operation shouldRetry (Suc r) (Some e) =
           (map_sum Some id (operation n),
            concat (map (\<lambda>i. [AcquireToken, Call i, Sleep (calculateDelay cfg i)]) [Suc r..<n])
              @ [AcquireToken, Call n])"
    using Suc.hyps(2) lt by (intro Suc.hyps(1)) auto
  from lt have split: "[r..<n] = r # [Suc r..<n]"
    by (simp add: upt_conv_Cons)
  from lt bound have "r < maxRetries cfg" by simp
  then show ?case
    using e IH by (subst executeWithRetry_loop.simps) (simp add: split)
qed

lemma withRetry_loop_stops_at:
  assumes bound: "n \<le> retries"
      and fails: "\<forall>i<n. isl (apiCall i)"
      and stops: "isl (apiCall n) \<longrightarrow> n = retries"
  shows "a \<le> n \<Longrightarrow>
         withRetry_loop apiCall retries delay (Suc a) le =
           (map_sum Some id (apiCall n),
            concat (map (\<lambda>i. [Call i, Sleep (delay * 2 ^ (i - a))]) [a..<n]) @ [Call n])"
proof (induction "n - a" arbitrary: a le delay)
  case 0
  then have rn: "a = n" by simp
  show ?case
  proof (cases "apiCall n")
    case (Inl e)
    with stops have "n = retries" by simp
    with Inl rn show ?thesis
      by (subst withRetry_loop.simps, simp, subst withRetry_loop.simps, simp)
  next
    case (Inr v)
    with rn bound show ?thesis
      by (subst withRetry_loop.simps) simp
  qed
next
  case (Suc d)
  from Suc.hyps(2) have lt: "a < n" by arith
  with fails have "isl (apiCall a)" by simp
  then obtain e where e: "apiCall a = Inl e" by (cases "apiCall a") auto
  have IH: "withRetry_loop apiCall retries (delay * 2) (Suc (Suc a)) (Some e) =
           (map_sum Some id (apiCall n),
            concat (map (\<lambda>i. [Call i, Sleep (delay * 2 * 2 ^ (i - Suc a))]) [Suc a..<n])
              @ [Call n])"
    using Suc.hyps(2) lt by (intro Suc.hyps(1)) auto
  from lt have split: "[a..<n] = a # [Suc a..<n]"
    by (simp add: upt_conv_Cons)
  have pw: "map (\<lambda>i. [Call i, Sleep (delay * 2 * 2 ^ (i - Suc a))]) [Suc a..<n]
          = map (\<lambda>i. [Call i, Sleep (delay * 2 ^ (i - a))]) [Suc a..<n]"
  proof (rule map_cong [OF refl])
    fix i assume "i \<in> set [Suc a..<n]"
    then have "i - a = Suc (i - Suc a)" by auto
    then show "[Call i, Sleep (delay * 2 * 2 ^ (i - Suc a))] = [Call i, Sleep (delay * 2 ^ (i - a))]"
      by simp
  qed
  from lt bound have "a < retries" by simp
  then show ?case
    using e IH by (subst withRetry_loop.simps) (simp add: split pw)
qed

lemma attempts_append: "attempts (xs @ ys) = attempts xs + attempts ys"
  by (induction xs rule: attempts.induct) auto

lemma sleeps_append: "sleeps (xs @ ys) = sleeps xs @ sleeps ys"
  by (induction xs rule: sleeps.induct) auto

lemma attempts_rounds:
  "attempts (concat (map (\<lambda>i. [AcquireToken, Call i, Sleep (f i)]) is)) = length is"
  by (induction "is") auto

lemma sleeps_rounds:
  "sleeps (concat (map (\<lambda>i. [AcquireToken, Call i, Sleep (f i)]) is)) = map f is"
  by (induction "is") auto

lemma attempts_rounds': "attempts (concat (map (\<lambda>i. [Call i, Sleep (f i)]) is)) = length is"
  by (induction "is") auto

lemma sleeps_rounds': "sleeps (concat (map (\<lambda>i. [Call i, Sleep (f i)]) is)) = map f is"
  by (induction "is") auto

lemma map_shift: "map f [0..<n] = map (\<lambda>i. f (i - 1)) [1..<Suc n]"
  by (induction n) auto

text \<open>
  C5. An operation whose first \<open>k\<close> invocations fail (with errors \<^verbatim>\<open>shouldRetry\<close> accepts;
  by default it accepts all) and whose next invocation succeeds: with \<open>k \<le> maxRetries\<close>
  \<^verbatim>\<open>RetryUtil.executeWithRetry\<close> returns that success; with \<open>maxRetries < k\<close> it ends in
  failure (it throws the error of its last attempt) after exactly \<open>maxRetries + 1\<close>
  invocations; and the delay slept before the \<open>n\<close>-th retry is
  \<open>min maxDelay (baseDelay * 2 ^ (n - 1))\<close>.
\<close>

theorem retry_fails_k_then_succeeds:
  assumes fails: "\<forall>i<k. \<exists>e. operation i = Inl e \<and> shouldRetry e"
      and succeeds: "operation k = Inr v"
  shows "(k \<le> maxRetries cfg \<longrightarrow>
            fst (executeWithRetry cfg operation shouldRetry) = Inr v) \<and>
         (maxRetries cfg < k \<longrightarrow>
            (\<exists>e. operation (maxRetries cfg) = Inl e \<and>
                 fst (executeWithRetry cfg operation shouldRetry) = Inl (Some e)) \<and>
            attempts (snd (executeWithRetry cfg operation shouldRetry)) = maxRetries cfg + 1) \<and>
         sleeps (snd (executeWithRetry cfg operation shouldRetry)) =
            map (\<lambda>n. min (maxDelay cfg) (baseDelay cfg * 2 ^ (n - 1)))
                [1..<Suc (min k (maxRetries cfg))]"
proof -
  let ?n = "min k (maxRetries cfg)"
  have 1: "?n \<le> maxRetries cfg" by simp
  have 2: "\<forall>i<?n. \<exists>e. operation i = Inl e \<and> shouldRetry e" using fails by simp
  have 3: "\<forall>e. operation ?n = Inl e \<longrightarrow> ?n = maxRetries cfg \<or> \<not> shouldRetry e"
    using succeeds by (cases "k \<le> maxRetries cfg") (auto simp: min_def)
  have run: "executeWithRetry cfg operation shouldRetry =
           (map_sum Some id (operation ?n),
            concat (map (\<lambda>i. [AcquireToken, Call i, Sleep (calculateDelay cfg i)]) [0..<?n])
              @ [AcquireToken, Call ?n])"
    unfolding executeWithRetry_def
    by (rule executeWithRetry_loop_stops_at [OF 1 2 3]) simp
  have a: "k \<le> maxRetries cfg \<longrightarrow> fst (executeWithRetry cfg operation shouldRetry) = Inr v"
    using succeeds by (simp add: run min_def)
  have b: "maxRetries cfg < k \<longrightarrow>
            (\<exists>e. operation (maxRetries cfg) = Inl e \<and>
                 fst (executeWithRetry cfg operation shouldRetry) = Inl (Some e)) \<and>
            attempts (snd (executeWithRetry cfg operation shouldRetry)) = maxRetries cfg + 1"
  proof
    assume lt: "maxRetries cfg < k"
    with fails obtain e where "operation (maxRetries cfg) = Inl e" by blast
    with lt show "(\<exists>e. operation (maxRetries cfg) = Inl e \<and>
                 fst (executeWithRetry cfg operation shouldRetry) = Inl (Some e)) \<and>
            attempts (snd (executeWithRetry cfg operation shouldRetry)) = maxRetries cfg + 1"
      by (simp add: run min_def attempts_append attempts_rounds)
  qed
  have c: "sleeps (snd (executeWithRetry cfg operation shouldRetry)) =
            map (\<lambda>n. min (maxDelay cfg) (baseDelay cfg * 2 ^ (n - 1))) [1..<Suc ?n]"
  proof -
    have "sleeps (snd (executeWithRetry cfg operation shouldRetry)) =
            map (calculateDelay cfg) [0..<?n]"
      by (simp add: run sleeps_append sleeps_rounds)
    also have "\<dots> = map (\<lambda>n. calculateDelay cfg (n - 1)) [1..<Suc ?n]"
      by (rule map_shift)
    also have "\<dots> = map (\<lambda>n. min (maxDelay cfg) (baseDelay cfg * 2 ^ (n - 1))) [1..<Suc ?n]"
      by (simp add: calculateDelay_def min.commute)
    finally show ?thesis .
  qed
  from a b c show ?thesis by blast
qed

theorem retry_fails_k_then_succeeds_witness:
  "fst (executeWithRetry apiConfig_retry (fails_then_ok 2) retryAlways) = Inr (JStr ''ok'') \<and>
   sleeps (snd (executeWithRetry apiConfig_retry (fails_then_ok 2) retryAlways)) = [1000, 2000] \<and>
   fst (executeWithRetry apiConfig_retry (fails_then_ok 7) retryAlways) = Inl (Some (JsError ''503'')) \<and>
   attempts (snd (executeWithRetry apiConfig_retry (fails_then_ok 7) retryAlways)) = 4 \<and>
   sleeps (snd (executeWithRetry (apiConfig_retry\<lparr>maxRetries := 5\<rparr>) (fails_then_ok 7) retryAlways))
     = [1000, 2000, 4000, 8000, 10000]"
  using retry_fails_k_then_succeeds [of 2 "fails_then_ok 2" retryAlways "JStr ''ok''" apiConfig_retry]
        retry_fails_k_then_succeeds [of 7 "fails_then_ok 7" retryAlways "JStr ''ok''" apiConfig_retry]
        retry_fails_k_then_succeeds [of 7 "fails_then_ok 7" retryAlways "JStr ''ok''"
          "apiConfig_retry\<lparr>maxRetries := 5\<rparr>"]
  by (simp add: fails_then_ok_def retryAlways_def apiConfig_retry_def upt_conv_Cons)

text \<open>
  The same for \<^verbatim>\<open>withRetry\<close>, the executor the orchestrator calls. It has no delay cap:
  the delay before the \<open>n\<close>-th retry is \<open>delay * 2 ^ (n - 1)\<close>, which is the capped
  formula for every cap the last delay does not exceed.
\<close>

lemma withRetry_fails_k_then_succeeds:
  assumes fails: "\<forall>i<k. isl (apiCall i)"
      and succeeds: "apiCall k = Inr v"
  shows "(k \<le> retries \<longrightarrow> fst (withRetry apiCall retries delay) = Inr v) \<and>
         (retries < k \<longrightarrow>
            (\<exists>e. apiCall retries = Inl e \<and> fst (withRetry apiCall retries delay) = Inl (Some e)) \<and>
            attempts (snd (withRetry apiCall retries delay)) = retries + 1) \<and>
         sleeps (snd (withRetry apiCall retries delay)) =
            map (\<lambda>n. delay * 2 ^ (n - 1)) [1..<Suc (min k retries)]"
proof -
  let ?n = "min k retries"
  have 1: "?n \<le> retries" by simp
  have 2: "\<forall>i<?n. isl (apiCall i)" using fails by simp
  have 3: "isl (apiCall ?n) \<longrightarrow> ?n = retries"
    using succeeds by (cases "k \<le> retries") (auto simp: min_def)
  have run: "withRetry apiCall retries delay =
           (map_sum Some id (apiCall ?n),
            concat (map (\<lambda>i. [Call i, Sleep (delay * 2 ^ (i - 0))]) [0..<?n]) @ [Call ?n])"
    unfolding withRetry_def One_nat_def
    by (rule withRetry_loop_stops_at [OF 1 2 3]) simp
  have a: "k \<le> retries \<longrightarrow> fst (withRetry apiCall retries delay) = Inr v"
    using succeeds by (simp add: run min_def)
  have b: "retries < k \<longrightarrow>
            (\<exists>e. apiCall retries = Inl e \<and> fst (withRetry apiCall retries delay) = Inl (Some e)) \<and>
            attempts (snd (withRetry apiCall retries delay)) = retries + 1"
  proof
    assume lt: "retries < k"
    with fails have "isl (apiCall retries)" by simp
    then obtain e where "apiCall retries = Inl e" by (cases "apiCall retries") auto
    with lt show "(\<exists>e. apiCall retries = Inl e \<and> fst (withRetry apiCall retries delay) = Inl (Some e)) \<and>
            attempts (snd (withRetry apiCall retries delay)) = retries + 1"
      by (simp add: run min_def attempts_append attempts_rounds')
  qed
  have c: "sleeps (snd (withRetry apiCall retries delay)) =
            map (\<lambda>n. delay * 2 ^ (n - 1)) [1..<Suc ?n]"
  proof -
    have "sleeps (snd (withRetry apiCall retries delay)) = map (\<lambda>i. delay * 2 ^ i) [0..<?n]"
      by (simp add: run sleeps_append sleeps_rounds')
    also have "\<dots> = map (\<lambda>n. delay * 2 ^ (n - 1)) [1..<Suc ?n]"
      by (rule map_shift)
    finally show ?thesis .
  qed
  from a b c show ?thesis by blast
qed

lemma withRetry_delays_capped:
  assumes fails: "\<forall>i<k. isl (apiCall i)"
      and succeeds: "apiCall k = Inr v"
      and cap: "delay * 2 ^ (retries - 1) \<le> maxDelayMs"
  shows "sleeps (snd (withRetry apiCall retries delay)) =
            map (\<lambda>n. min maxDelayMs (delay * 2 ^ (n - 1))) [1..<Suc (min k retries)]"
proof -
  have "sleeps (snd (withRetry apiCall retries delay)) =
            map (\<lambda>n. delay * 2 ^ (n - 1)) [1..<Suc (min k retries)]"
    using withRetry_fails_k_then_succeeds [OF fails succeeds] by blast
  also have "\<dots> = map (\<lambda>n. min maxDelayMs (delay * 2 ^ (n - 1))) [1..<Suc (min k retries)]"
  proof (rule map_cong [OF refl])
    fix n assume "n \<in> set [1..<Suc (min k retries)]"
    then have "n - 1 \<le> retries - 1" by auto
    then have "(2::nat) ^ (n - 1) \<le> 2 ^ (retries - 1)" by (simp add: power_increasing)
    then have "delay * 2 ^ (n - 1) \<le> delay * 2 ^ (retries - 1)" by (rule mult_le_mono2)
    with cap have "delay * 2 ^ (n - 1) \<le> maxDelayMs" by linarith
    then show "delay * 2 ^ (n - 1) = min maxDelayMs (delay * 2 ^ (n - 1))" by (simp add: min_def)
  qed
  finally show ?thesis .
qed

section \<open>Properties of the rate limiter\<close>

lemma quotaOf_news: "quotaOf ''news'' = 5"
  by (simp add: quotaOf_def QUOTA_LIMITS_def)

lemma six_requests_news:
  "six_requests ''news'' =
     Some \<lparr>requestCount = 6, lastReset = 0, isBackingOff = False, nextAvailable = 0\<rparr>"
  by (simp add: six_requests_def registerRequest_def canMakeRequest_def tracked_def
      modelNameOf_def initializeModelLimit_def Let_def quotaOf_news)

text \<open>
  C7, as stated, fails. Six requests (the quota of \<^verbatim>\<open>news\<close> is the default 5) are registered
  within the first second of a window that started at time 0; a quota rejection at time
  1000 sets a backoff of one second. The admission check at time 3000, still within 60
  seconds of every one of those requests, is granted: the expired backoff makes
  \<^verbatim>\<open>canMakeRequest\<close> zero the count and start a new window.
\<close>

theorem rate_limit_backoff_counterexample:
  "after_short_backoff ''news'' =
     Some \<lparr>requestCount = 6, lastReset = 0, isBackingOff = True, nextAvailable = 2000\<rparr> \<and>
   quotaOf ''news'' = 5 \<and>
   fst (canMakeRequest 3000 ''news'' after_short_backoff) = True"
  by (simp add: after_short_backoff_def handleRateLimitError_def six_requests_news
      canMakeRequest_def tracked_def modelNameOf_def Let_def quotaOf_news)

text \<open>
  C7, amended. Requests are counted per model name against that name's own quota, in a
  fixed window that starts at the entry's last reset: while the count has reached the
  quota, no more than 60000 ms have passed since the last reset and no backoff has expired,
  an admission check is refused and leaves the limiter's state as it is (so every
  further check under the same conditions is refused as well); and the operations on one
  model name never touch the entry of another.
\<close>

theorem rate_limit_window:
  assumes "rateLimits (modelNameOf model) = Some limitInfo"
      and "quotaOf (modelNameOf model) \<le> requestCount limitInfo"
      and "now - lastReset limitInfo \<le> 60000"
      and "\<not> (isBackingOff limitInfo \<and> nextAvailable limitInfo \<le> now)"
  shows "canMakeRequest now model rateLimits = (False, rateLimits) \<and>
         (\<forall>other. modelNameOf other \<noteq> modelNameOf model \<longrightarrow>
            snd (canMakeRequest now other rateLimits) (modelNameOf model) = Some limitInfo \<and>
            registerRequest now other rateLimits (modelNameOf model) = Some limitInfo \<and>
            handleRateLimitError now other retryAfterSec rateLimits (modelNameOf model)
              = Some limitInfo)"
  using assms
  by (auto simp: canMakeRequest_def registerRequest_def handleRateLimitError_def tracked_def
      Let_def map_upd_triv)

theorem rate_limit_window_witness:
  "canMakeRequest 3000 ''news'' six_requests = (False, six_requests) \<and>
   snd (canMakeRequest 3000 ''embedding-001'' six_requests) ''news'' =
     Some \<lparr>requestCount = 6, lastReset = 0, isBackingOff = False, nextAvailable = 0\<rparr>"
  using rate_limit_window [of six_requests "''news''"
      "\<lparr>requestCount = 6, lastReset = 0, isBackingOff = False, nextAvailable = 0\<rparr>" 3000 1]
  by (simp add: six_requests_news quotaOf_news modelNameOf_def)

text \<open>
  The window is fixed, not rolling: once 60000 ms have passed since the last reset the
  count starts again from zero, whatever was registered just before. Here six requests
  fall within 501 ms and the check that follows is granted.
\<close>

lemma rate_limit_window_not_rolling:
  "five_late_requests ''news'' =
     Some \<lparr>requestCount = 5, lastReset = 0, isBackingOff = False, nextAvailable = 0\<rparr> \<and>
   fst (canMakeRequest 60001 ''news'' five_late_requests) = True \<and>
   one_more_request ''news'' =
     Some \<lparr>requestCount = 1, lastReset = 60001, isBackingOff = False, nextAvailable = 0\<rparr> \<and>
   fst (canMakeRequest 60002 ''news'' one_more_request) = True"
proof -
  have five: "five_late_requests ''news'' =
     Some \<lparr>requestCount = 5, lastReset = 0, isBackingOff = False, nextAvailable = 0\<rparr>"
    by (simp add: five_late_requests_def registerRequest_def canMakeRequest_def tracked_def
        modelNameOf_def initializeModelLimit_def Let_def quotaOf_news)
  have one: "one_more_request ''news'' =
     Some \<lparr>requestCount = 1, lastReset = 60001, isBackingOff = False, nextAvailable = 0\<rparr>"
    by (simp add: one_more_request_def registerRequest_def canMakeRequest_def tracked_def
        modelNameOf_def Let_def quotaOf_news five)
  show ?thesis
    by (simp add: five one canMakeRequest_def tracked_def modelNameOf_def Let_def quotaOf_news)
qed

text \<open>
  An expired backoff in general: whatever the count was, the check is granted, the count
  is zero afterwards and a new window starts at the time of the check.
\<close>

lemma quotaOf_positive: "0 < quotaOf modelName"
  by (simp add: quotaOf_def split: option.splits)

lemma rate_limit_backoff_expired:
  assumes "rateLimits (modelNameOf model) = Some limitInfo"
      and "isBackingOff limitInfo"
      and "nextAvailable limitInfo \<le> now"
  shows "canMakeRequest now model rateLimits =
           (True, rateLimits(modelNameOf model \<mapsto>
                    limitInfo\<lparr>isBackingOff := False, requestCount := 0, lastReset := now\<rparr>))"
  using assms by (simp add: canMakeRequest_def tracked_def Let_def quotaOf_positive)

section \<open>Properties of the city comparison\<close>

lemma map_of_setKey: "map_of (setKey kvs k v) = (map_of kvs)(k \<mapsto> v)"
  by (induction kvs) (auto simp: fun_eq_iff)

lemma keys_setKey: "fst ` set (setKey kvs k v) = insert k (fst ` set kvs)"
proof (induction kvs)
  case Nil
  show ?case by simp
next
  case (Cons p kvs)
  obtain k' v' where p: "p = (k', v')" by (cases p)
  show ?case
    by (cases "k' = k") (simp_all add: p Cons.IH insert_commute)
qed

lemma set_dedupe: "set (dedupe xs) = set xs"
  by (simp add: dedupe_def)

lemma distinct_dedupe: "distinct (dedupe xs)"
  by (simp add: dedupe_def)

lemma compareCategory_wins:
  "snd (compareCategory fmt n1 s1 n2 s2 c (cats, w1, w2)) =
     (if scoreOr0 s1 c > scoreOr0 s2 c then w1 + 1 else w1,
      if scoreOr0 s2 c > scoreOr0 s1 c then w2 + 1 else w2)"
  by (simp add: compareCategory_def Let_def)

lemma compareCategory_cats:
  "fst (compareCategory fmt n1 s1 n2 s2 c (cats, w1, w2)) =
     setKey cats c
       (if scoreOr0 s1 c > scoreOr0 s2 c then \<lparr>best = n1, difference = fmt (scoreOr0 s1 c) (scoreOr0 s2 c)\<rparr>
        else if scoreOr0 s2 c > scoreOr0 s1 c then \<lparr>best = n2, difference = fmt (scoreOr0 s2 c) (scoreOr0 s1 c)\<rparr>
        else \<lparr>best = ''tie'', difference = ''0.0''\<rparr>)"
  by (simp add: compareCategory_def Let_def)

lemma fold_compareCategory_wins:
  "snd (fold (compareCategory fmt n1 s1 n2 s2) cs (cats, w1, w2)) =
     (w1 + length (filter (\<lambda>c. scoreOr0 s1 c > scoreOr0 s2 c) cs),
      w2 + length (filter (\<lambda>c. scoreOr0 s2 c > scoreOr0 s1 c) cs))"
proof (induction cs arbitrary: cats w1 w2)
  case Nil
  show ?case by simp
next
  case (Cons c cs)
  obtain cats' w1' w2' where step: "compareCategory fmt n1 s1 n2 s2 c (cats, w1, w2) = (cats', w1', w2')"
    by (cases "compareCategory fmt n1 s1 n2 s2 c (cats, w1, w2)") auto
  with compareCategory_wins [of fmt n1 s1 n2 s2 c cats w1 w2]
  have "(w1', w2') = (if scoreOr0 s1 c > scoreOr0 s2 c then w1 + 1 else w1,
      if scoreOr0 s2 c > scoreOr0 s1 c then w2 + 1 else w2)" by simp
  then show ?case
    by (simp add: step Cons.IH)
qed

lemma fold_compareCategory_cats:
  "map_of (fst (fold (compareCategory fmt n1 s1 n2 s2) cs (cats, w1, w2))) c =
     (if c \<in> set cs then
        Some (if scoreOr0 s1 c > scoreOr0 s2 c then \<lparr>best = n1, difference = fmt (scoreOr0 s1 c) (scoreOr0 s2 c)\<rparr>
        else if scoreOr0 s2 c > scoreOr0 s1 c then \<lparr>best = n2, difference = fmt (scoreOr0 s2 c) (scoreOr0 s1 c)\<rparr>
        else \<lparr>best = ''tie'', difference = ''0.0''\<rparr>)
      else map_of cats c)"
proof (induction cs arbitrary: cats w1 w2)
  case Nil
  show ?case by simp
next
  case (Cons d cs)
  obtain cats' w1' w2' where step: "compareCategory fmt n1 s1 n2 s2 d (cats, w1, w2) = (cats', w1', w2')"
    by (cases "compareCategory fmt n1 s1 n2 s2 d (cats, w1, w2)") auto
  with compareCategory_cats [of fmt n1 s1 n2 s2 d cats w1 w2]
  have cats': "cats' = setKey cats d
       (if scoreOr0 s1 d > scoreOr0 s2 d then \<lparr>best = n1, difference = fmt (scoreOr0 s1 d) (scoreOr0 s2 d)\<rparr>
        else if scoreOr0 s2 d > scoreOr0 s1 d then \<lparr>best = n2, difference = fmt (scoreOr0 s2 d) (scoreOr0 s1 d)\<rparr>
        else \<lparr>best = ''tie'', difference = ''0.0''\<rparr>)" by simp
  show ?case
    by (simp add: step Cons.IH) (simp add: cats' map_of_setKey)
qed

lemma fold_compareCategory_keys:
  "fst ` set (fst (fold (compareCategory fmt n1 s1 n2 s2) cs (cats, w1, w2))) =
     fst ` set cats \<union> set cs"
proof (induction cs arbitrary: cats w1 w2)
  case Nil
  show ?case by simp
next
  case (Cons d cs)
  obtain cats' w1' w2' where step: "compareCategory fmt n1 s1 n2 s2 d (cats, w1, w2) = (cats', w1', w2')"
    by (cases "compareCategory fmt n1 s1 n2 s2 d (cats, w1, w2)") auto
  with compareCategory_cats [of fmt n1 s1 n2 s2 d cats w1 w2]
  have "fst ` set cats' = insert d (fst ` set cats)"
    by (simp add: keys_setKey)
  then show ?case
    by (simp add: step Cons.IH)
qed

lemma compareCities_unfold:
  assumes "scores city1 = Some scores1" "scores city2 = Some scores2"
  shows "compareCities fmt (city1 # city2 # rest) =
     Some \<lparr>winner =
            (let r = fold (compareCategory fmt (name city1) scores1 (name city2) scores2)
                          (dedupe (map fst scores1 @ map fst scores2)) ([], 0, 0)
             in if fst (snd r) > snd (snd r) then name city1
                else if snd (snd r) > fst (snd r) then name city2 else ''tie''),
           categories = fst (fold (compareCategory fmt (name city1) scores1 (name city2) scores2)
                          (dedupe (map fst scores1 @ map fst scores2)) ([], 0, 0))\<rparr>"
  using assms by (simp add: compareCities_def Let_def split: prod.splits)

text \<open>
  C2, as stated, fails. Austin has a score for \<^verbatim>\<open>housing\<close> only, Denver for
  \<^verbatim>\<open>costOfLiving\<close> only: each category is present in exactly one record, and the
  comparison has an entry for both, the missing score read as 0.
\<close>

theorem comparison_one_sided_counterexample:
  "compareCities exactDifference
     [cityWithScores ''Austin'' [(''housing'', 7)],
      cityWithScores ''Denver'' [(''costOfLiving'', 8)]] =
   Some \<lparr>winner = ''tie'',
         categories = [(''housing'', \<lparr>best = ''Austin'', difference = ''7.0''\<rparr>),
                       (''costOfLiving'', \<lparr>best = ''Denver'', difference = ''8.0''\<rparr>)]\<rparr>"
  by code_simp

text \<open>
  C2, amended. When both records have a score map, the per-category comparison has an
  entry for exactly the categories in the union of the two score maps; each entry
  compares the two scores with a missing one read as 0, so a category present in exactly
  one record is won by whichever side is greater than 0 (a tie when the score is 0).
\<close>

theorem comparison_covers_union:
  assumes "scores city1 = Some scores1" and "scores city2 = Some scores2"
  shows "\<exists>r. compareCities fmt (city1 # city2 # rest) = Some r \<and>
           fst ` set (categories r) = fst ` set scores1 \<union> fst ` set scores2 \<and>
           (\<forall>c \<in> fst ` set scores1 \<union> fst ` set scores2.
              map_of (categories r) c =
                Some (if scoreOr0 scores1 c > scoreOr0 scores2 c
                      then \<lparr>best = name city1,
                            difference = fmt (scoreOr0 scores1 c) (scoreOr0 scores2 c)\<rparr>
                      else if scoreOr0 scores2 c > scoreOr0 scores1 c
                      then \<lparr>best = name city2,
                            difference = fmt (scoreOr0 scores2 c) (scoreOr0 scores1 c)\<rparr>
                      else \<lparr>best = ''tie'', difference = ''0.0''\<rparr>))"
  by (simp add: compareCities_unfold [OF assms] fold_compareCategory_keys
      fold_compareCategory_cats set_dedupe)

theorem comparison_covers_union_witness:
  "\<exists>r. compareCities exactDifference
          [cityWithScores ''Austin'' [(''housing'', 7)],
           cityWithScores ''Denver'' [(''costOfLiving'', 8)]] = Some r \<and>
        fst ` set (categories r) = {''costOfLiving'', ''housing''} \<and>
        map_of (categories r) ''housing'' = Some \<lparr>best = ''Austin'', difference = ''7.0''\<rparr> \<and>
        map_of (categories r) ''costOfLiving'' = Some \<lparr>best = ''Denver'', difference = ''8.0''\<rparr>"
proof -
  have s1: "scores (cityWithScores ''Austin'' [(''housing'', 7)]) = Some [(''housing'', 7)]"
    by (simp add: cityWithScores_def)
  have s2: "scores (cityWithScores ''Denver'' [(''costOfLiving'', 8)]) = Some [(''costOfLiving'', 8)]"
    by (simp add: cityWithScores_def)
  have d1: "exactDifference 7 0 = ''7.0''" by code_simp
  have d2: "exactDifference 8 0 = ''8.0''" by code_simp
  have n1: "name (cityWithScores ''Austin'' [(''housing'', 7)]) = ''Austin''"
    by (simp add: cityWithScores_def)
  have n2: "name (cityWithScores ''Denver'' [(''costOfLiving'', 8)]) = ''Denver''"
    by (simp add: cityWithScores_def)
  have v1: "scoreOr0 [(''housing'', 7)] ''housing'' = 7" by (simp add: scoreOr0_def)
  have v2: "scoreOr0 [(''costOfLiving'', 8)] ''housing'' = 0" by (simp add: scoreOr0_def)
  have v3: "scoreOr0 [(''housing'', 7)] ''costOfLiving'' = 0" by (simp add: scoreOr0_def)
  have v4: "scoreOr0 [(''costOfLiving'', 8)] ''costOfLiving'' = 8" by (simp add: scoreOr0_def)
  from comparison_covers_union [OF s1 s2, of exactDifference "[]"] show ?thesis
  proof (elim exE conjE)
    fix r
    assume r: "compareCities exactDifference
          [cityWithScores ''Austin'' [(''housing'', 7)],
           cityWithScores ''Denver'' [(''costOfLiving'', 8)]] = Some r"
    assume keys: "fst ` set (categories r) = fst ` set [(''housing'', 7::rat)] \<union> fst ` set [(''costOfLiving'', 8::rat)]"
    assume entries: "\<forall>c \<in> fst ` set [(''housing'', 7::rat)] \<union> fst ` set [(''costOfLiving'', 8::rat)].
              map_of (categories r) c =
                Some (if scoreOr0 [(''housing'', 7)] c > scoreOr0 [(''costOfLiving'', 8)] c
                      then \<lparr>best = name (cityWithScores ''Austin'' [(''housing'', 7)]),
                            difference = exactDifference (scoreOr0 [(''housing'', 7)] c) (scoreOr0 [(''costOfLiving'', 8)] c)\<rparr>
                      else if scoreOr0 [(''costOfLiving'', 8)] c > scoreOr0 [(''housing'', 7)] c
                      then \<lparr>best = name (cityWithScores ''Denver'' [(''costOfLiving'', 8)]),
                            difference = exactDifference (scoreOr0 [(''costOfLiving'', 8)] c) (scoreOr0 [(''housing'', 7)] c)\<rparr>
                      else \<lparr>best = ''tie'', difference = ''0.0''\<rparr>)"
    have h: "''housing'' \<in> fst ` set [(''housing'', 7::rat)] \<union> fst ` set [(''costOfLiving'', 8::rat)]"
      by simp
    have c: "''costOfLiving'' \<in> fst ` set [(''housing'', 7::rat)] \<union> fst ` set [(''costOfLiving'', 8::rat)]"
      by simp
    have e1: "map_of (categories r) ''housing'' = Some \<lparr>best = ''Austin'', difference = ''7.0''\<rparr>"
      using bspec [OF entries h] by (simp add: v1 v2 n1 d1)
    have e2: "map_of (categories r) ''costOfLiving'' = Some \<lparr>best = ''Denver'', difference = ''8.0''\<rparr>"
      using bspec [OF entries c] by (simp add: v3 v4 n2 d2)
    have k: "fst ` set (categories r) = {''costOfLiving'', ''housing''}"
      using keys by simp
    show ?thesis
      by (rule exI [of _ r]) (simp only: r k e1 e2 simp_thms)
  qed
qed

text \<open>
  C9, as stated, fails. Three categories are compared; Austin wins \<^verbatim>\<open>housing\<close> and the
  other two are level. One win out of three compared categories is no strict majority,
  so the winner would be \<^verbatim>\<open>tie\<close>; \<^verbatim>\<open>compareCities\<close> declares Austin.
\<close>

theorem comparison_plurality_counterexample:
  "compareCities exactDifference
     [cityWithScores ''Austin'' [(''housing'', 7), (''costOfLiving'', 5), (''safety'', 5)],
      cityWithScores ''Denver'' [(''housing'', 5), (''costOfLiving'', 5), (''safety'', 5)]] =
   Some \<lparr>winner = ''Austin'',
         categories = [(''housing'', \<lparr>best = ''Austin'', difference = ''2.0''\<rparr>),
                       (''costOfLiving'', \<lparr>best = ''tie'', difference = ''0.0''\<rparr>),
                       (''safety'', \<lparr>best = ''tie'', difference = ''0.0''\<rparr>)]\<rparr> \<and>
   strictMajorityWinner ''Austin'' ''Denver'' 1 0 3 = ''tie''"
  by code_simp

text \<open>
  C9, amended. The overall winner is the city that wins more categories than the other
  city does, and \<^verbatim>\<open>tie\<close> when both win equally many; a category with equal scores counts
  for neither. The categories counted are those of the union of the two score maps, each
  once. In particular a 1-1 split yields \<^verbatim>\<open>tie\<close>.
\<close>

theorem comparison_winner:
  assumes "scores city1 = Some scores1" and "scores city2 = Some scores2"
  shows "\<exists>r. compareCities fmt (city1 # city2 # rest) = Some r \<and>
           winner r =
             (let allCategories = dedupe (map fst scores1 @ map fst scores2);
                  city1Wins = length (filter (\<lambda>c. scoreOr0 scores1 c > scoreOr0 scores2 c) allCategories);
                  city2Wins = length (filter (\<lambda>c. scoreOr0 scores2 c > scoreOr0 scores1 c) allCategories)
              in if city1Wins > city2Wins then name city1
                 else if city2Wins > city1Wins then name city2
                 else ''tie'')"
  by (simp add: compareCities_unfold [OF assms] fold_compareCategory_wins Let_def)

theorem comparison_winner_witness:
  "\<exists>r. compareCities exactDifference
          [cityWithScores ''Austin'' [(''housing'', 7), (''costOfLiving'', 6)],
           cityWithScores ''Denver'' [(''housing'', 5), (''costOfLiving'', 8)]] = Some r \<and>
        winner r = ''tie''"
proof -
  have s1: "scores (cityWithScores ''Austin'' [(''housing'', 7), (''costOfLiving'', 6)])
              = Some [(''housing'', 7), (''costOfLiving'', 6)]"
    by (simp add: cityWithScores_def)
  have s2: "scores (cityWithScores ''Denver'' [(''housing'', 5), (''costOfLiving'', 8)])
              = Some [(''housing'', 5), (''costOfLiving'', 8)]"
    by (simp add: cityWithScores_def)
  have cs: "dedupe [''housing'', ''costOfLiving'', ''housing'', ''costOfLiving'']
              = [''housing'', ''costOfLiving'']"
    by code_simp
  show ?thesis
    using comparison_winner [OF s1 s2, of exactDifference "[]"]
    by (simp add: cs scoreOr0_def Let_def)
qed

section \<open>Properties of the fusion engine\<close>

lemma errorShaped_obj: "errorShaped v \<Longrightarrow> \<exists>kvs. v = JObj kvs"
  by (cases v) (auto simp: errorShaped_def)

lemma errorShaped_truthy: "errorShaped v \<Longrightarrow> truthy v"
  by (cases v) (auto simp: errorShaped_def)

lemma errorShaped_field:
  "errorShaped v \<Longrightarrow> k \<in> set dataProperties \<Longrightarrow> field v k = JUndefined"
  by (cases v) (auto simp: errorShaped_def field_def list_all_iff)

lemma errorShaped_fields:
  assumes "errorShaped v"
  shows "field v ''urbanArea'' = JUndefined" "field v ''city'' = JUndefined"
        "field v ''fallbackData'' = JUndefined" "field v ''features'' = JUndefined"
        "field v ''articles'' = JUndefined" "field v ''organic'' = JUndefined"
        "field v ''summaries'' = JUndefined"
  using assms by (simp_all add: errorShaped_field dataProperties_def)

lemma errorShaped_extract:
  assumes "errorShaped v"
  shows "extractNews v = []" "extractNeighborhoods v = []" "extractWebResults v = []"
        "summaryObject str v = Some emptySummaryObject"
        "processCityInfo str c v cd = cd"
  using errorShaped_fields [OF assms]
  by (simp_all add: extractNews_def extractNeighborhoods_def extractWebResults_def
      summaryObject_def emptySummaryObject_def processCityInfo_def Let_def)

lemma getProp_None: "getProp v k = None \<longleftrightarrow> v = JUndefined \<or> v = JNull"
  by (cases v) auto

lemma those_map_Some:
  "(\<exists>ys. those (map f xs) = Some ys) \<longleftrightarrow> list_all (\<lambda>x. f x \<noteq> None) xs"
  by (induction xs) (auto split: option.splits)

lemma those_getProp:
  "list_all (\<lambda>s. s \<noteq> JUndefined \<and> s \<noteq> JNull) ss \<Longrightarrow> \<exists>ys. those (map (\<lambda>s. getProp s k) ss) = Some ys"
  by (simp add: those_map_Some getProp_None list_all_iff)

lemma summaryObject_total:
  assumes "summariesWellFormed v"
  shows "\<exists>obj. summaryObject str v = Some obj"
proof (cases "field v ''summaries''")
  case (JArr ss)
  with assms have wf: "list_all (\<lambda>s. s \<noteq> JUndefined \<and> s \<noteq> JNull) ss"
    by (simp add: summariesWellFormed_def)
  from those_getProp [OF wf, of "''summary''"] obtain a where a: "those (map (\<lambda>s. getProp s ''summary'') ss) = Some a" by blast
  from those_getProp [OF wf, of "''source''"] obtain b where b: "those (map (\<lambda>s. getProp s ''source'') ss) = Some b" by blast
  from those_getProp [OF wf, of "''keyPoints''"] obtain c where c: "those (map (\<lambda>s. getProp s ''keyPoints'') ss) = Some c" by blast
  show ?thesis
    by (simp add: summaryObject_def JArr a b c)
qed (use assms in \<open>simp_all add: summariesWellFormed_def summaryObject_def\<close>)

lemma summaryField_total:
  "summariesWellFormed v \<Longrightarrow> \<exists>x. summaryField str v = Some x"
  using summaryObject_total [of v str] by (auto simp: summaryField_def)

lemma processCityData_total:
  assumes "list_all (\<lambda>p. summariesWellFormed (resultOf apiResults p)) summaryApis"
  shows "\<exists>cityData. processCityData str cityName apiResults = Some cityData"
proof -
  from assms have wf: "summariesWellFormed (resultOf apiResults ''housingMarket'')"
      "summariesWellFormed (resultOf apiResults ''jobOpportunities'')"
      "summariesWellFormed (resultOf apiResults ''transportation'')"
      "summariesWellFormed (resultOf apiResults ''schoolDistricts'')"
    by (simp_all add: summaryApis_def)
  from summaryField_total [OF wf(1), of str] obtain h where h: "summaryField str (resultOf apiResults ''housingMarket'') = Some h" by blast
  from summaryField_total [OF wf(2), of str] obtain j where j: "summaryField str (resultOf apiResults ''jobOpportunities'') = Some j" by blast
  from summaryField_total [OF wf(3), of str] obtain t where t: "summaryField str (resultOf apiResults ''transportation'') = Some t" by blast
  from summaryField_total [OF wf(4), of str] obtain d where d: "summaryField str (resultOf apiResults ''schoolDistricts'') = Some d" by blast
  show ?thesis
    by (simp add: processCityData_def Let_def h j t d)
qed

lemma processCityData_fields:
  assumes "processCityData str cityName apiResults = Some cityData"
  shows "name cityData = cityName"
    and "neighborhoods cityData = whenTruthy (resultOf apiResults ''neighborhoods'')
                (extractNeighborhoods (resultOf apiResults ''neighborhoods''))"
    and "news cityData = whenTruthy (resultOf apiResults ''news'')
                (extractNews (resultOf apiResults ''news''))"
    and "webResults cityData = whenTruthy (resultOf apiResults ''webSearch'')
                (extractWebResults (resultOf apiResults ''webSearch''))"
    and "summaryField str (resultOf apiResults ''housingMarket'') = Some (housingMarket cityData)"
    and "summaryField str (resultOf apiResults ''jobOpportunities'') = Some (jobMarket cityData)"
    and "summaryField str (resultOf apiResults ''transportation'') = Some (transportation cityData)"
    and "summaryField str (resultOf apiResults ''schoolDistricts'') = Some (schools cityData)"
  using assms
  by (auto simp: processCityData_def Let_def processCityInfo_def split: Option.bind_splits if_splits)

lemma processCityData_cityInfo:
  assumes "processCityData str cityName apiResults = Some cityData"
  shows "\<not> truthy (resultOf apiResults ''cityInfo'') \<or> errorShaped (resultOf apiResults ''cityInfo'')
         \<Longrightarrow> fullName cityData = JUndefined \<and> scores cityData = None \<and> summary cityData = None"
  using assms errorShaped_extract(5) [of "resultOf apiResults ''cityInfo''" str cityName]
  by (auto simp: processCityData_def Let_def split: Option.bind_splits if_splits)

text \<open>
  C3, as stated, fails. The results for \<^verbatim>\<open>news\<close> and \<^verbatim>\<open>housingMarket\<close> are the error
  objects \<^verbatim>\<open>callApi\<close> builds. The record for Austin has \<^verbatim>\<open>news\<close> set to the empty array
  and \<^verbatim>\<open>housingMarket\<close> set to an object with an undefined summary, undefined sources and
  empty highlights: an error object is truthy, and the engine looks at nothing else.
\<close>

theorem error_result_not_absent_counterexample:
  "processCityData objectString ''Austin'' newsAndHousingFailed =
   Some \<lparr>name = ''Austin'', fullName = JUndefined, scores = None, summary = None,
         neighborhoods = None,
         housingMarket = Some (JObj [(''summary'', JUndefined), (''sources'', JUndefined),
                                     (''highlights'', JArr [])]),
         jobMarket = None, transportation = None, schools = None,
         news = Some [], webResults = None\<rparr>"
  by code_simp

lemma summaryField_cases:
  "errorShaped v \<Longrightarrow> summaryField str v = Some (Some emptySummaryObject)"
  "\<not> truthy v \<Longrightarrow> summaryField str v = Some None"
  by (simp_all add: summaryField_def errorShaped_truthy errorShaped_extract)

text \<open>
  C3, amended. Whenever \<^verbatim>\<open>processCityData\<close> returns a record: an error-shaped result for
  \<^verbatim>\<open>news\<close>, \<^verbatim>\<open>neighborhoods\<close> or \<^verbatim>\<open>webSearch\<close> sets the field to the empty array; an
  error-shaped result for \<^verbatim>\<open>housingMarket\<close>, \<^verbatim>\<open>jobOpportunities\<close>, \<^verbatim>\<open>transportation\<close> or
  \<^verbatim>\<open>schoolDistricts\<close> sets the field to an object with undefined summary and sources and
  empty highlights; an error-shaped \<^verbatim>\<open>cityInfo\<close> leaves \<^verbatim>\<open>fullName\<close>, \<^verbatim>\<open>scores\<close> and
  \<^verbatim>\<open>summary\<close> absent. A field of the first two groups is absent when the provider's
  result is missing or falsy.
\<close>

theorem error_result_fields:
  assumes "processCityData str cityName apiResults = Some cityData"
  shows "(errorShaped (resultOf apiResults ''news'') \<longrightarrow> news cityData = Some []) \<and>
         (errorShaped (resultOf apiResults ''neighborhoods'') \<longrightarrow> neighborhoods cityData = Some []) \<and>
         (errorShaped (resultOf apiResults ''webSearch'') \<longrightarrow> webResults cityData = Some []) \<and>
         (errorShaped (resultOf apiResults ''housingMarket'') \<longrightarrow>
            housingMarket cityData = Some emptySummaryObject) \<and>
         (errorShaped (resultOf apiResults ''jobOpportunities'') \<longrightarrow>
            jobMarket cityData = Some emptySummaryObject) \<and>
         (errorShaped (resultOf apiResults ''transportation'') \<longrightarrow>
            transportation cityData = Some emptySummaryObject) \<and>
         (errorShaped (resultOf apiResults ''schoolDistricts'') \<longrightarrow>
            schools cityData = Some emptySummaryObject) \<and>
         (errorShaped (resultOf apiResults ''cityInfo'') \<longrightarrow>
            fullName cityData = JUndefined \<and> scores cityData = None \<and> summary cityData = None) \<and>
         (\<not> truthy (resultOf apiResults ''news'') \<longrightarrow> news cityData = None) \<and>
         (\<not> truthy (resultOf apiResults ''neighborhoods'') \<longrightarrow> neighborhoods cityData = None) \<and>
         (\<not> truthy (resultOf apiResults ''webSearch'') \<longrightarrow> webResults cityData = None) \<and>
         (\<not> truthy (resultOf apiResults ''housingMarket'') \<longrightarrow> housingMarket cityData = None) \<and>
         (\<not> truthy (resultOf apiResults ''jobOpportunities'') \<longrightarrow> jobMarket cityData = None) \<and>
         (\<not> truthy (resultOf apiResults ''transportation'') \<longrightarrow> transportation cityData = None) \<and>
         (\<not> truthy (resultOf apiResults ''schoolDistricts'') \<longrightarrow> schools cityData = None)"
proof -
  note f = processCityData_fields [OF assms]
  have 1: "errorShaped (resultOf apiResults ''news'') \<longrightarrow> news cityData = Some []"
    by (simp add: f(3) whenTruthy_def errorShaped_truthy errorShaped_extract)
  have 2: "errorShaped (resultOf apiResults ''neighborhoods'') \<longrightarrow> neighborhoods cityData = Some []"
    by (simp add: f(2) whenTruthy_def errorShaped_truthy errorShaped_extract)
  have 3: "errorShaped (resultOf apiResults ''webSearch'') \<longrightarrow> webResults cityData = Some []"
    by (simp add: f(4) whenTruthy_def errorShaped_truthy errorShaped_extract)
  have 4: "errorShaped (resultOf apiResults ''housingMarket'') \<longrightarrow>
            housingMarket cityData = Some emptySummaryObject"
    using f(5) by (auto simp: summaryField_cases)
  have 5: "errorShaped (resultOf apiResults ''jobOpportunities'') \<longrightarrow>
            jobMarket cityData = Some emptySummaryObject"
    using f(6) by (auto simp: summaryField_cases)
  have 6: "errorShaped (resultOf apiResults ''transportation'') \<longrightarrow>
            transportation cityData = Some emptySummaryObject"
    using f(7) by (auto simp: summaryField_cases)
  have 7: "errorShaped (resultOf apiResults ''schoolDistricts'') \<longrightarrow>
            schools cityData = Some emptySummaryObject"
    using f(8) by (auto simp: summaryField_cases)
  have 8: "errorShaped (resultOf apiResults ''cityInfo'') \<longrightarrow>
            fullName cityData = JUndefined \<and> scores cityData = None \<and> summary cityData = None"
    using processCityData_cityInfo [OF assms] by blast
  have 9: "\<not> truthy (resultOf apiResults ''news'') \<longrightarrow> news cityData = None"
    by (simp add: f(3) whenTruthy_def)
  have 10: "\<not> truthy (resultOf apiResults ''neighborhoods'') \<longrightarrow> neighborhoods cityData = None"
    by (simp add: f(2) whenTruthy_def)
  have 11: "\<not> truthy (resultOf apiResults ''webSearch'') \<longrightarrow> webResults cityData = None"
    by (simp add: f(4) whenTruthy_def)
  have 12: "\<not> truthy (resultOf apiResults ''housingMarket'') \<longrightarrow> housingMarket cityData = None"
    using f(5) by (auto simp: summaryField_cases)
  have 13: "\<not> truthy (resultOf apiResults ''jobOpportunities'') \<longrightarrow> jobMarket cityData = None"
    using f(6) by (auto simp: summaryField_cases)
  have 14: "\<not> truthy (resultOf apiResults ''transportation'') \<longrightarrow> transportation cityData = None"
    using f(7) by (auto simp: summaryField_cases)
  have 15: "\<not> truthy (resultOf apiResults ''schoolDistricts'') \<longrightarrow> schools cityData = None"
    using f(8) by (auto simp: summaryField_cases)
  from 1 2 3 4 5 6 7 8 9 10 11 12 13 14 15 show ?thesis by blast
qed

theorem error_result_fields_witness:
  "\<exists>cityData. processCityData objectString ''Austin'' newsAndHousingFailed = Some cityData \<and>
      news cityData = Some [] \<and> housingMarket cityData = Some emptySummaryObject \<and>
      webResults cityData = None \<and> jobMarket cityData = None"
proof -
  have run: "processCityData objectString ''Austin'' newsAndHousingFailed =
     Some \<lparr>name = ''Austin'', fullName = JUndefined, scores = None, summary = None,
         neighborhoods = None,
         housingMarket = Some (JObj [(''summary'', JUndefined), (''sources'', JUndefined),
                                     (''highlights'', JArr [])]),
         jobMarket = None, transportation = None, schools = None,
         news = Some [], webResults = None\<rparr>"
    by code_simp
  have e1: "errorShaped (resultOf newsAndHousingFailed ''news'')" by code_simp
  have e2: "errorShaped (resultOf newsAndHousingFailed ''housingMarket'')" by code_simp
  have a1: "\<not> truthy (resultOf newsAndHousingFailed ''webSearch'')" by code_simp
  have a2: "\<not> truthy (resultOf newsAndHousingFailed ''jobOpportunities'')" by code_simp
  show ?thesis
    using error_result_fields [OF run] e1 e2 a1 a2 run by blast
qed

text \<open>
  What a record holds when the results are well-formed: each extractor, written out on
  a payload whose array has no \<^verbatim>\<open>null\<close> or \<^verbatim>\<open>undefined\<close> element.
\<close>

lemma getProp_field: "v \<noteq> JUndefined \<Longrightarrow> v \<noteq> JNull \<Longrightarrow> getProp v k = Some (field v k)"
  by (cases v) (simp_all add: field_def)

lemma field_array_truthy: "field v k = JArr xs \<Longrightarrow> truthy v"
  by (cases v) (simp_all add: field_def)

lemma field_truthy: "truthy (field v k) \<Longrightarrow> truthy v"
  by (cases v) (simp_all add: field_def)

lemma those_map_eq:
  "\<forall>x \<in> set xs. f x = Some (g x) \<Longrightarrow> those (map f xs) = Some (map g xs)"
  by (induction xs) simp_all

lemma those_map_member:
  "those (map f xs) = Some ys \<Longrightarrow> y \<in> set ys \<Longrightarrow> \<exists>x \<in> set xs. f x = Some y"
  by (induction xs arbitrary: ys) (auto split: option.splits)

lemma those_getProp_fields:
  "those (map (\<lambda>s. getProp s k) ss) = Some ys \<Longrightarrow> ys = map (\<lambda>s. field s k) ss"
  by (induction ss arbitrary: ys) (auto simp: field_def split: option.splits)

lemma extractWebResults_organic:
  assumes "field v ''organic'' = JArr organic"
      and "list_all (\<lambda>r. r \<noteq> JUndefined \<and> r \<noteq> JNull) organic"
  shows "extractWebResults v =
           map (\<lambda>r. JObj [(''title'', field r ''title''), (''description'', field r ''snippet''),
                           (''url'', field r ''link'')]) organic"
proof -
  have "\<forall>r \<in> set organic. webResultOf r =
          Some (JObj [(''title'', field r ''title''), (''description'', field r ''snippet''),
                      (''url'', field r ''link'')])"
    using assms(2) by (simp add: list_all_iff webResultOf_def getProp_field)
  from those_map_eq [OF this] show ?thesis
    by (simp add: extractWebResults_def assms(1) field_array_truthy [OF assms(1)])
qed

lemma extractNews_articles:
  assumes "field v ''articles'' = JArr articles"
      and "list_all (\<lambda>a. a \<noteq> JUndefined \<and> a \<noteq> JNull \<and>
                          field a ''source'' \<noteq> JUndefined \<and> field a ''source'' \<noteq> JNull) articles"
  shows "extractNews v =
           map (\<lambda>a. JObj [(''title'', field a ''title''), (''description'', field a ''description''),
                           (''url'', field a ''url''),
                           (''source'', field (field a ''source'') ''name''),
                           (''publishedAt'', field a ''publishedAt'')]) articles"
proof -
  have "\<forall>a \<in> set articles. articleOf a =
          Some (JObj [(''title'', field a ''title''), (''description'', field a ''description''),
                      (''url'', field a ''url''),
                      (''source'', field (field a ''source'') ''name''),
                      (''publishedAt'', field a ''publishedAt'')])"
    using assms(2) by (simp add: list_all_iff articleOf_def getProp_field)
  from those_map_eq [OF this] show ?thesis
    by (simp add: extractNews_def assms(1) field_array_truthy [OF assms(1)])
qed

lemma extractNeighborhoods_features:
  assumes "field v ''features'' = JArr features"
      and "list_all (\<lambda>f. f \<noteq> JUndefined \<and> f \<noteq> JNull) features"
  shows "extractNeighborhoods v =
           map (\<lambda>f. JObj
                  [(''name'', js_or (js_or (field (field f ''properties'') ''neighborhood'')
                                           (field (field f ''properties'') ''name''))
                                    (JStr ''Unknown'')),
                   (''city'', js_or (field (field f ''properties'') ''city'') (JStr ''Unknown'')),
                   (''state'', js_or (field (field f ''properties'') ''state'') (JStr ''Unknown'')),
                   (''country'', js_or (field (field f ''properties'') ''country'') (JStr ''Unknown'')),
                   (''coordinates'', js_or (field (field f ''geometry'') ''coordinates'') JNull)])
               features"
proof -
  have "\<forall>f \<in> set features. neighborhoodOf f =
          Some (JObj
                  [(''name'', js_or (js_or (field (field f ''properties'') ''neighborhood'')
                                           (field (field f ''properties'') ''name''))
                                    (JStr ''Unknown'')),
                   (''city'', js_or (field (field f ''properties'') ''city'') (JStr ''Unknown'')),
                   (''state'', js_or (field (field f ''properties'') ''state'') (JStr ''Unknown'')),
                   (''country'', js_or (field (field f ''properties'') ''country'') (JStr ''Unknown'')),
                   (''coordinates'', js_or (field (field f ''geometry'') ''coordinates'') JNull)])"
    using assms(2) by (simp add: list_all_iff neighborhoodOf_def getProp_field)
  from those_map_eq [OF this] show ?thesis
    by (simp add: extractNeighborhoods_def assms(1) field_array_truthy [OF assms(1)])
qed

lemma summaryObject_contents:
  assumes "summaryObject str v = Some obj"
      and "field v ''summaries'' = JArr ss"
  shows "obj = JObj
             [(''summary'', JStr (joinWith str '' '' (map (\<lambda>s. field s ''summary'') ss))),
              (''sources'', JArr (map (\<lambda>s. field s ''source'') ss)),
              (''highlights'', JArr (flatten1 (map (\<lambda>s. js_or (field s ''keyPoints'') (JArr [])) ss)))]"
  using assms
  by (auto simp: summaryObject_def comp_def dest!: those_getProp_fields split: Option.bind_splits)

lemma summaryField_contents:
  assumes "summaryField str v = Some x"
  shows "(\<not> truthy v \<longrightarrow> x = None) \<and>
         (errorShaped v \<longrightarrow> x = Some emptySummaryObject) \<and>
         (\<forall>ss. field v ''summaries'' = JArr ss \<longrightarrow>
            x = Some (JObj
             [(''summary'', JStr (joinWith str '' '' (map (\<lambda>s. field s ''summary'') ss))),
              (''sources'', JArr (map (\<lambda>s. field s ''source'') ss)),
              (''highlights'', JArr (flatten1 (map (\<lambda>s. js_or (field s ''keyPoints'') (JArr [])) ss)))]))"
proof (intro conjI allI impI)
  assume "\<not> truthy v" with assms show "x = None" by (simp add: summaryField_def)
next
  assume "errorShaped v" with assms show "x = Some emptySummaryObject"
    by (simp add: summaryField_cases)
next
  fix ss assume a: "field v ''summaries'' = JArr ss"
  from assms field_array_truthy [OF a] obtain obj where o: "summaryObject str v = Some obj" "x = Some obj"
    by (auto simp: summaryField_def)
  from summaryObject_contents [OF o(1) a] o(2)
  show "x = Some (JObj
             [(''summary'', JStr (joinWith str '' '' (map (\<lambda>s. field s ''summary'') ss))),
              (''sources'', JArr (map (\<lambda>s. field s ''source'') ss)),
              (''highlights'', JArr (flatten1 (map (\<lambda>s. js_or (field s ''keyPoints'') (JArr [])) ss)))])"
    by simp
qed

lemma processCityData_cityInfo_fields:
  assumes "processCityData str cityName apiResults = Some cityData"
  shows "fullName cityData =
           (if truthy (resultOf apiResults ''cityInfo'') \<and>
               truthy (field (resultOf apiResults ''cityInfo'') ''urbanArea'')
            then js_or (field (field (resultOf apiResults ''cityInfo'') ''urbanArea'') ''fullName'')
                       (field (field (resultOf apiResults ''cityInfo'') ''urbanArea'') ''name'')
            else if truthy (resultOf apiResults ''cityInfo'') \<and>
                    truthy (field (resultOf apiResults ''cityInfo'') ''city'')
            then js_or (field (field (resultOf apiResults ''cityInfo'') ''city'') ''full_name'')
                       (field (field (resultOf apiResults ''cityInfo'') ''city'') ''name'')
            else JUndefined)"
    and "scores cityData =
           (if truthy (resultOf apiResults ''cityInfo'') \<and>
               truthy (field (resultOf apiResults ''cityInfo'') ''fallbackData'')
            then Some (estimatedScoresOf
                   (field (field (resultOf apiResults ''cityInfo'') ''fallbackData'') ''estimatedScores''))
            else if truthy (resultOf apiResults ''cityInfo'') \<and>
                    truthy (field (resultOf apiResults ''cityInfo'') ''urbanArea'')
            then extractScores str (resultOf apiResults ''cityInfo'')
            else None)"
    and "summary cityData =
           (if truthy (resultOf apiResults ''cityInfo'') \<and>
               truthy (field (resultOf apiResults ''cityInfo'') ''fallbackData'')
            then Some (''Information about '' @ cityName @ '' (using fallback data)'')
            else None)"
  using assms
  by (auto simp: processCityData_def Let_def processCityInfo_def split: Option.bind_splits if_splits)

text \<open>
  Every field of a record \<^verbatim>\<open>processCityData\<close> returns, read off the results: absent when
  the provider's result is missing or falsy, empty when it is error-shaped, and the
  provider's data otherwise.
\<close>

lemma processCityData_contents:
  assumes "processCityData str cityName apiResults = Some cityData"
  shows "(\<not> truthy (resultOf apiResults ''news'') \<longrightarrow> news cityData = None) \<and>
         (errorShaped (resultOf apiResults ''news'') \<longrightarrow> news cityData = Some []) \<and>
         (\<forall>articles.
            field (resultOf apiResults ''news'') ''articles'' = JArr articles \<and>
            list_all (\<lambda>a. a \<noteq> JUndefined \<and> a \<noteq> JNull \<and>
                          field a ''source'' \<noteq> JUndefined \<and> field a ''source'' \<noteq> JNull)
              articles \<longrightarrow>
            news cityData = Some (map
              (\<lambda>a. JObj [(''title'', field a ''title''),
                         (''description'', field a ''description''),
                         (''url'', field a ''url''),
                         (''source'', field (field a ''source'') ''name''),
                         (''publishedAt'', field a ''publishedAt'')])
              articles)) \<and>
         (\<not> truthy (resultOf apiResults ''neighborhoods'') \<longrightarrow> neighborhoods cityData = None) \<and>
         (errorShaped (resultOf apiResults ''neighborhoods'') \<longrightarrow> neighborhoods cityData = Some []) \<and>
         (\<forall>features.
            field (resultOf apiResults ''neighborhoods'') ''features'' = JArr features \<and>
            list_all (\<lambda>f. f \<noteq> JUndefined \<and> f \<noteq> JNull) features \<longrightarrow>
            neighborhoods cityData = Some (map
              (\<lambda>f. JObj
                 [(''name'', js_or (js_or (field (field f ''properties'') ''neighborhood'')
                                          (field (field f ''properties'') ''name''))
                                   (JStr ''Unknown'')),
                  (''city'', js_or (field (field f ''properties'') ''city'') (JStr ''Unknown'')),
                  (''state'', js_or (field (field f ''properties'') ''state'') (JStr ''Unknown'')),
                  (''country'', js_or (field (field f ''properties'') ''country'') (JStr ''Unknown'')),
                  (''coordinates'', js_or (field (field f ''geometry'') ''coordinates'') JNull)])
              features)) \<and>
         (\<not> truthy (resultOf apiResults ''webSearch'') \<longrightarrow> webResults cityData = None) \<and>
         (errorShaped (resultOf apiResults ''webSearch'') \<longrightarrow> webResults cityData = Some []) \<and>
         (\<forall>organic.
            field (resultOf apiResults ''webSearch'') ''organic'' = JArr organic \<and>
            list_all (\<lambda>r. r \<noteq> JUndefined \<and> r \<noteq> JNull) organic \<longrightarrow>
            webResults cityData = Some (map
              (\<lambda>r. JObj [(''title'', field r ''title''),
                         (''description'', field r ''snippet''),
                         (''url'', field r ''link'')])
              organic)) \<and>
         (\<forall>(p, part) \<in> set [(''housingMarket'', housingMarket), (''jobOpportunities'', jobMarket),
                              (''transportation'', transportation), (''schoolDistricts'', schools)].
            (\<not> truthy (resultOf apiResults p) \<longrightarrow> part cityData = None) \<and>
            (errorShaped (resultOf apiResults p) \<longrightarrow> part cityData = Some emptySummaryObject) \<and>
            (\<forall>ss. field (resultOf apiResults p) ''summaries'' = JArr ss \<longrightarrow>
               part cityData = Some (JObj
                 [(''summary'', JStr (joinWith str '' '' (map (\<lambda>s. field s ''summary'') ss))),
                  (''sources'', JArr (map (\<lambda>s. field s ''source'') ss)),
                  (''highlights'',
                     JArr (flatten1 (map (\<lambda>s. js_or (field s ''keyPoints'') (JArr [])) ss)))]))) \<and>
         (\<not> truthy (resultOf apiResults ''cityInfo'') \<or> errorShaped (resultOf apiResults ''cityInfo'') \<longrightarrow>
            fullName cityData = JUndefined \<and> scores cityData = None \<and> summary cityData = None) \<and>
         (truthy (field (resultOf apiResults ''cityInfo'') ''urbanArea'') \<longrightarrow>
            fullName cityData =
              js_or (field (field (resultOf apiResults ''cityInfo'') ''urbanArea'') ''fullName'')
                    (field (field (resultOf apiResults ''cityInfo'') ''urbanArea'') ''name'') \<and>
            (\<not> truthy (field (resultOf apiResults ''cityInfo'') ''fallbackData'') \<longrightarrow>
               scores cityData = extractScores str (resultOf apiResults ''cityInfo''))) \<and>
         (\<not> truthy (field (resultOf apiResults ''cityInfo'') ''urbanArea'') \<and>
          truthy (field (resultOf apiResults ''cityInfo'') ''city'') \<longrightarrow>
            fullName cityData =
              js_or (field (field (resultOf apiResults ''cityInfo'') ''city'') ''full_name'')
                    (field (field (resultOf apiResults ''cityInfo'') ''city'') ''name'')) \<and>
         (truthy (field (resultOf apiResults ''cityInfo'') ''fallbackData'') \<longrightarrow>
            summary cityData =
              Some (''Information about '' @ name cityData @ '' (using fallback data)'') \<and>
            scores cityData = Some (estimatedScoresOf
              (field (field (resultOf apiResults ''cityInfo'') ''fallbackData'') ''estimatedScores''))) \<and>
         (\<not> truthy (field (resultOf apiResults ''cityInfo'') ''fallbackData'') \<longrightarrow>
            summary cityData = None \<and>
            (\<not> truthy (field (resultOf apiResults ''cityInfo'') ''urbanArea'') \<longrightarrow> scores cityData = None)) \<and>
         (\<not> truthy (field (resultOf apiResults ''cityInfo'') ''urbanArea'') \<and>
          \<not> truthy (field (resultOf apiResults ''cityInfo'') ''city'') \<longrightarrow>
            fullName cityData = JUndefined)"
  (is "?N0 \<and> ?N1 \<and> ?N2 \<and> ?B0 \<and> ?B1 \<and> ?B2 \<and> ?W0 \<and> ?W1 \<and> ?W2 \<and> ?S \<and> ?C0 \<and> ?C1 \<and> ?C2 \<and> ?C3 \<and>
      ?C4 \<and> ?C5")
proof -
  note f = processCityData_fields [OF assms]
  note c = processCityData_cityInfo_fields [OF assms]
  have n0: ?N0 by (simp add: f(3) whenTruthy_def)
  have n1: ?N1 by (simp add: f(3) whenTruthy_def errorShaped_truthy errorShaped_extract)
  have n2: ?N2
    by (auto simp: f(3) whenTruthy_def extractNews_articles dest: field_array_truthy)
  have b0: ?B0 by (simp add: f(2) whenTruthy_def)
  have b1: ?B1 by (simp add: f(2) whenTruthy_def errorShaped_truthy errorShaped_extract)
  have b2: ?B2
    by (auto simp: f(2) whenTruthy_def extractNeighborhoods_features dest: field_array_truthy)
  have w0: ?W0 by (simp add: f(4) whenTruthy_def)
  have w1: ?W1 by (simp add: f(4) whenTruthy_def errorShaped_truthy errorShaped_extract)
  have w2: ?W2
    by (auto simp: f(4) whenTruthy_def extractWebResults_organic dest: field_array_truthy)
  have s: ?S
    using summaryField_contents [OF f(5)] summaryField_contents [OF f(6)]
          summaryField_contents [OF f(7)] summaryField_contents [OF f(8)]
    by simp
  have c0: ?C0 using processCityData_cityInfo [OF assms] by blast
  have c1: ?C1
    using field_truthy [of "resultOf apiResults ''cityInfo''" "''urbanArea''"] by (simp add: c)
  have c2: ?C2
    using field_truthy [of "resultOf apiResults ''cityInfo''" "''city''"] by (simp add: c)
  have c3: ?C3
    using field_truthy [of "resultOf apiResults ''cityInfo''" "''fallbackData''"]
    by (simp add: c f(1))
  have c4: ?C4 by (simp add: c)
  have c5: ?C5 by (simp add: c)
  show ?thesis
    by (intro conjI) (rule n0 n1 n2 b0 b1 b2 w0 w1 w2 s c0 c1 c2 c3 c4 c5)+
qed


text \<open>
  C10. The request names no city and the results hold a truthy \<^verbatim>\<open>cityInfo\<close> or
  \<^verbatim>\<open>neighborhoods\<close> (the summary payloads being of the shape the adapters return): the
  fused data has exactly one city and no error. That city is the record \<^verbatim>\<open>processCityData\<close>
  builds from those results under the name \<^verbatim>\<open>New York\<close>: its neighbourhoods are the
  entries made from the features of the \<^verbatim>\<open>neighborhoods\<close> result, its full name, scores
  and summary are those of the \<^verbatim>\<open>cityInfo\<close> result, and every other field holds what the
  result of its provider yields.
\<close>

theorem merge_default_city:
  assumes "citiesOf parsedIntent = []"
      and "truthy (resultOf apiResults ''cityInfo'') \<or> truthy (resultOf apiResults ''neighborhoods'')"
      and "list_all (\<lambda>p. summariesWellFormed (resultOf apiResults p)) summaryApis"
  shows "\<exists>cityData.
           processCityData str ''New York'' apiResults = Some cityData \<and>
           name cityData = ''New York'' \<and>
           merge str fmt parsedIntent apiResults =
             \<lparr>cities_f = [cityData], comparison = None, generalInfo = None,
              originalQuery_f = originalQuery parsedIntent, intent_f = intent parsedIntent,
              error_f = None\<rparr> \<and>
           (\<not> truthy (resultOf apiResults ''news'') \<longrightarrow> news cityData = None) \<and>
           (errorShaped (resultOf apiResults ''news'') \<longrightarrow> news cityData = Some []) \<and>
           (\<forall>articles.
              field (resultOf apiResults ''news'') ''articles'' = JArr articles \<and>
              list_all (\<lambda>a. a \<noteq> JUndefined \<and> a \<noteq> JNull \<and>
                            field a ''source'' \<noteq> JUndefined \<and> field a ''source'' \<noteq> JNull)
                articles \<longrightarrow>
              news cityData = Some (map
                (\<lambda>a. JObj [(''title'', field a ''title''),
                           (''description'', field a ''description''),
                           (''url'', field a ''url''),
                           (''source'', field (field a ''source'') ''name''),
                           (''publishedAt'', field a ''publishedAt'')])
                articles)) \<and>
           (\<not> truthy (resultOf apiResults ''neighborhoods'') \<longrightarrow> neighborhoods cityData = None) \<and>
           (errorShaped (resultOf apiResults ''neighborhoods'') \<longrightarrow> neighborhoods cityData = Some []) \<and>
           (\<forall>features.
              field (resultOf apiResults ''neighborhoods'') ''features'' = JArr features \<and>
              list_all (\<lambda>f. f \<noteq> JUndefined \<and> f \<noteq> JNull) features \<longrightarrow>
              neighborhoods cityData = Some (map
                (\<lambda>f. JObj
                   [(''name'', js_or (js_or (field (field f ''properties'') ''neighborhood'')
                                            (field (field f ''properties'') ''name''))
                                     (JStr ''Unknown'')),
                    (''city'', js_or (field (field f ''properties'') ''city'') (JStr ''Unknown'')),
                    (''state'', js_or (field (field f ''properties'') ''state'') (JStr ''Unknown'')),
                    (''country'', js_or (field (field f ''properties'') ''country'') (JStr ''Unknown'')),
                    (''coordinates'', js_or (field (field f ''geometry'') ''coordinates'') JNull)])
                features)) \<and>
           (\<not> truthy (resultOf apiResults ''webSearch'') \<longrightarrow> webResults cityData = None) \<and>
           (errorShaped (resultOf apiResults ''webSearch'') \<longrightarrow> webResults cityData = Some []) \<and>
           (\<forall>organic.
              field (resultOf apiResults ''webSearch'') ''organic'' = JArr organic \<and>
              list_all (\<lambda>r. r \<noteq> JUndefined \<and> r \<noteq> JNull) organic \<longrightarrow>
              webResults cityData = Some (map
                (\<lambda>r. JObj [(''title'', field r ''title''),
                           (''description'', field r ''snippet''),
                           (''url'', field r ''link'')])
                organic)) \<and>
           (\<forall>(p, part) \<in> set [(''housingMarket'', housingMarket), (''jobOpportunities'', jobMarket),
                                (''transportation'', transportation), (''schoolDistricts'', schools)].
              (\<not> truthy (resultOf apiResults p) \<longrightarrow> part cityData = None) \<and>
              (errorShaped (resultOf apiResults p) \<longrightarrow> part cityData = Some emptySummaryObject) \<and>
              (\<forall>ss. field (resultOf apiResults p) ''summaries'' = JArr ss \<longrightarrow>
                 part cityData = Some (JObj
                   [(''summary'', JStr (joinWith str '' '' (map (\<lambda>s. field s ''summary'') ss))),
                    (''sources'', JArr (map (\<lambda>s. field s ''source'') ss)),
                    (''highlights'',
                       JArr (flatten1 (map (\<lambda>s. js_or (field s ''keyPoints'') (JArr [])) ss)))]))) \<and>
           (\<not> truthy (resultOf apiResults ''cityInfo'') \<or> errorShaped (resultOf apiResults ''cityInfo'') \<longrightarrow>
              fullName cityData = JUndefined \<and> scores cityData = None \<and> summary cityData = None) \<and>
           (truthy (field (resultOf apiResults ''cityInfo'') ''urbanArea'') \<longrightarrow>
              fullName cityData =
                js_or (field (field (resultOf apiResults ''cityInfo'') ''urbanArea'') ''fullName'')
                      (field (field (resultOf apiResults ''cityInfo'') ''urbanArea'') ''name'') \<and>
              (\<not> truthy (field (resultOf apiResults ''cityInfo'') ''fallbackData'') \<longrightarrow>
                 scores cityData = extractScores str (resultOf apiResults ''cityInfo''))) \<and>
           (\<not> truthy (field (resultOf apiResults ''cityInfo'') ''urbanArea'') \<and>
            truthy (field (resultOf apiResults ''cityInfo'') ''city'') \<longrightarrow>
              fullName cityData =
                js_or (field (field (resultOf apiResults ''cityInfo'') ''city'') ''full_name'')
                      (field (field (resultOf apiResults ''cityInfo'') ''city'') ''name'')) \<and>
           (truthy (field (resultOf apiResults ''cityInfo'') ''fallbackData'') \<longrightarrow>
              summary cityData =
                Some (''Information about '' @ name cityData @ '' (using fallback data)'') \<and>
              scores cityData = Some (estimatedScoresOf
                (field (field (resultOf apiResults ''cityInfo'') ''fallbackData'') ''estimatedScores''))) \<and>
           (\<not> truthy (field (resultOf apiResults ''cityInfo'') ''fallbackData'') \<longrightarrow>
              summary cityData = None \<and>
              (\<not> truthy (field (resultOf apiResults ''cityInfo'') ''urbanArea'') \<longrightarrow> scores cityData = None)) \<and>
           (\<not> truthy (field (resultOf apiResults ''cityInfo'') ''urbanArea'') \<and>
            \<not> truthy (field (resultOf apiResults ''cityInfo'') ''city'') \<longrightarrow>
              fullName cityData = JUndefined)"
proof -
  from processCityData_total [OF assms(3), of str "''New York''"]
  obtain cityData where cd: "processCityData str ''New York'' apiResults = Some cityData" by blast
  have nm: "name cityData = ''New York''" by (rule processCityData_fields(1) [OF cd])
  have m: "merge str fmt parsedIntent apiResults =
             \<lparr>cities_f = [cityData], comparison = None, generalInfo = None,
              originalQuery_f = originalQuery parsedIntent, intent_f = intent parsedIntent,
              error_f = None\<rparr>"
    using assms(1,2) by (simp add: merge_def merge_try_def cd)
  show ?thesis
    by (rule exI [of _ cityData])
       (rule conjI [OF cd conjI [OF nm conjI [OF m processCityData_contents [OF cd]]]])
qed

theorem merge_default_city_witness:
  "merge objectString exactDifference noCityRequest sohoResults =
     \<lparr>cities_f =
        [\<lparr>name = ''New York'', fullName = JStr ''New York, United States'',
          scores = Some [(''housing'', 1), (''costOfLiving'', 23 / 10)], summary = None,
          neighborhoods = Some
            [JObj [(''name'', JStr ''SoHo''), (''city'', JStr ''Manhattan''),
                   (''state'', JStr ''Unknown''), (''country'', JStr ''Unknown''),
                   (''coordinates'', JArr [JNum (-74), JNum 40])]],
          housingMarket = None, jobMarket = None, transportation = None, schools = None,
          news = None, webResults = None\<rparr>],
      comparison = None, generalInfo = None,
      originalQuery_f = ''which neighborhood is quiet'',
      intent_f = NEIGHBORHOOD_RECOMMENDATION, error_f = None\<rparr>"
proof -
  have 1: "citiesOf noCityRequest = []" by code_simp
  have 2: "truthy (resultOf sohoResults ''cityInfo'') \<or> truthy (resultOf sohoResults ''neighborhoods'')"
    by code_simp
  have 3: "list_all (\<lambda>p. summariesWellFormed (resultOf sohoResults p)) summaryApis" by code_simp
  have run: "processCityData objectString ''New York'' sohoResults =
      Some \<lparr>name = ''New York'', fullName = JStr ''New York, United States'',
          scores = Some [(''housing'', 1), (''costOfLiving'', 23 / 10)], summary = None,
          neighborhoods = Some
            [JObj [(''name'', JStr ''SoHo''), (''city'', JStr ''Manhattan''),
                   (''state'', JStr ''Unknown''), (''country'', JStr ''Unknown''),
                   (''coordinates'', JArr [JNum (-74), JNum 40])]],
          housingMarket = None, jobMarket = None, transportation = None, schools = None,
          news = None, webResults = None\<rparr>"
    by code_simp
  have q: "originalQuery noCityRequest = ''which neighborhood is quiet''"
    "intent noCityRequest = NEIGHBORHOOD_RECOMMENDATION"
    by (simp_all add: noCityRequest_def)
  from merge_default_city [OF 1 2 3, of objectString exactDifference]
  obtain cityData where cd: "processCityData objectString ''New York'' sohoResults = Some cityData"
    and m: "merge objectString exactDifference noCityRequest sohoResults =
             \<lparr>cities_f = [cityData], comparison = None, generalInfo = None,
              originalQuery_f = originalQuery noCityRequest, intent_f = intent noCityRequest,
              error_f = None\<rparr>"
    by (elim exE conjE)
  from cd run have "cityData = \<lparr>name = ''New York'', fullName = JStr ''New York, United States'',
          scores = Some [(''housing'', 1), (''costOfLiving'', 23 / 10)], summary = None,
          neighborhoods = Some
            [JObj [(''name'', JStr ''SoHo''), (''city'', JStr ''Manhattan''),
                   (''state'', JStr ''Unknown''), (''country'', JStr ''Unknown''),
                   (''coordinates'', JArr [JNum (-74), JNum 40])]],
          housingMarket = None, jobMarket = None, transportation = None, schools = None,
          news = None, webResults = None\<rparr>"
    by simp
  with m q show ?thesis by simp
qed

section \<open>Properties of the summaries of search results\<close>







section \<open>Properties of the orchestrator\<close>



lemma errorShaped_errorResult: "errorShaped (errorResult apiName e)"
  by (simp add: errorShaped_def errorResult_def field_def dataProperties_def)

lemma callApi_value:
  "callApi env apiName params =
     Inr (case callApi_try env apiName params of Inr v \<Rightarrow> v | Inl e \<Rightarrow> errorResult apiName e)"
  by (simp add: callApi_def split: sum.splits)




lemma fold_entries:
  "fold (\<lambda>apiName results. results(apiName \<mapsto> g apiName)) apiNames m =
     (\<lambda>k. if k \<in> set apiNames then Some (g k) else m k)"
  by (induction apiNames arbitrary: m) (auto simp: fun_eq_iff)

lemma buildApiQueries_object: "\<exists>queries. buildApiQueries parsedIntent = JObj queries"
  by (simp add: buildApiQueries_def Let_def split: list.splits)

lemma callMultipleApis_object:
  "callMultipleApis env apiNames (JObj queries) =
     Inr (\<lambda>k. if k \<in> set apiNames then Some (apiEntry env (JObj queries) k) else None)"
  by (simp add: callMultipleApis_def fold_entries)

lemma truthy_errorResult: "truthy (errorResult apiName e)"
  by (simp add: errorResult_def)

lemma fillFromCache_kept:
  "truthy (resultOf results apiName) \<Longrightarrow> fillFromCache cachedData k a results apiName = results apiName"
  by (auto simp: fillFromCache_def)

lemma fillFromCache_defined:
  "results apiName \<noteq> None \<Longrightarrow> fillFromCache cachedData k a results apiName \<noteq> None"
  by (auto simp: fillFromCache_def)

lemma fillFromCache_truthy:
  "truthy (resultOf results apiName) \<Longrightarrow> truthy (resultOf (fillFromCache cachedData k a results) apiName)"
  by (auto simp: fillFromCache_def resultOf_def)

lemma fetch_results:
  "\<exists>results. fetch env now apiCache parsedIntent = Inr results \<and>
     (\<forall>apiName \<in> set (getRequiredApis (intent parsedIntent)).
        results apiName \<noteq> None \<and>
        (truthy (apiEntry env (buildApiQueries parsedIntent) apiName) \<longrightarrow>
           results apiName = Some (apiEntry env (buildApiQueries parsedIntent) apiName)))"
proof -
  obtain queries where q: "buildApiQueries parsedIntent = JObj queries"
    using buildApiQueries_object by blast
  let ?r0 = "\<lambda>k. if k \<in> set (getRequiredApis (intent parsedIntent))
                  then Some (apiEntry env (JObj queries) k) else None"
  have r0: "callMultipleApis env (getRequiredApis (intent parsedIntent)) (buildApiQueries parsedIntent) = Inr ?r0"
    by (simp add: q callMultipleApis_object)
  have keep: "\<And>c apiName. apiName \<in> set (getRequiredApis (intent parsedIntent)) \<Longrightarrow>
       (fillFromCache c ''news'' ''news''
         (fillFromCache c ''serper'' ''webSearch''
           (fillFromCache c ''radar'' ''neighborhoods'' ?r0))) apiName \<noteq> None \<and>
       (truthy (apiEntry env (JObj queries) apiName) \<longrightarrow>
        (fillFromCache c ''news'' ''news''
         (fillFromCache c ''serper'' ''webSearch''
           (fillFromCache c ''radar'' ''neighborhoods'' ?r0))) apiName = Some (apiEntry env (JObj queries) apiName))"
  proof -
    fix c apiName assume req: "apiName \<in> set (getRequiredApis (intent parsedIntent))"
    then have d0: "?r0 apiName \<noteq> None" by simp
    have t0: "truthy (apiEntry env (JObj queries) apiName) \<Longrightarrow> truthy (resultOf ?r0 apiName)"
      using req by (simp add: resultOf_def)
    show "(fillFromCache c ''news'' ''news''
         (fillFromCache c ''serper'' ''webSearch''
           (fillFromCache c ''radar'' ''neighborhoods'' ?r0))) apiName \<noteq> None \<and>
       (truthy (apiEntry env (JObj queries) apiName) \<longrightarrow>
        (fillFromCache c ''news'' ''news''
         (fillFromCache c ''serper'' ''webSearch''
           (fillFromCache c ''radar'' ''neighborhoods'' ?r0))) apiName = Some (apiEntry env (JObj queries) apiName))"
    proof (intro conjI impI)
      show "(fillFromCache c ''news'' ''news''
         (fillFromCache c ''serper'' ''webSearch''
           (fillFromCache c ''radar'' ''neighborhoods'' ?r0))) apiName \<noteq> None"
        by (intro fillFromCache_defined d0)
    next
      assume t: "truthy (apiEntry env (JObj queries) apiName)"
      have "(fillFromCache c ''news'' ''news''
         (fillFromCache c ''serper'' ''webSearch''
           (fillFromCache c ''radar'' ''neighborhoods'' ?r0))) apiName = ?r0 apiName"
        by (simp add: fillFromCache_kept fillFromCache_truthy t0 [OF t])
      with req show "(fillFromCache c ''news'' ''news''
         (fillFromCache c ''serper'' ''webSearch''
           (fillFromCache c ''radar'' ''neighborhoods'' ?r0))) apiName = Some (apiEntry env (JObj queries) apiName)"
        by simp
    qed
  qed
  show ?thesis
  proof (cases "citiesOf parsedIntent")
    case Nil
    then have "fetch env now apiCache parsedIntent = Inr ?r0"
      by (simp add: fetch_def r0)
    then show ?thesis by (simp add: q)
  next
    case (Cons primaryCity others)
    show ?thesis
    proof (cases "truthy (getCachedCityData now apiCache primaryCity)")
      case True
      then have "fetch env now apiCache parsedIntent =
        Inr (fillFromCache (getCachedCityData now apiCache primaryCity) ''news'' ''news''
         (fillFromCache (getCachedCityData now apiCache primaryCity) ''serper'' ''webSearch''
           (fillFromCache (getCachedCityData now apiCache primaryCity) ''radar'' ''neighborhoods'' ?r0)))"
        by (simp add: fetch_def r0 Cons Let_def)
      then show ?thesis using keep [of _ "getCachedCityData now apiCache primaryCity"]
        by (simp add: q)
    next
      case False
      then have "fetch env now apiCache parsedIntent = Inr ?r0"
        by (simp add: fetch_def r0 Cons Let_def)
      then show ?thesis by (simp add: q)
    qed
  qed
qed

lemma those_processCityData_names:
  "those (map (\<lambda>c. processCityData str c apiResults) cs) = Some records \<Longrightarrow> map name records = cs"
proof (induction cs arbitrary: records)
  case Nil
  then show ?case by simp
next
  case (Cons c cs)
  then obtain cd rest where cd: "processCityData str c apiResults = Some cd"
    and rest: "those (map (\<lambda>c. processCityData str c apiResults) cs) = Some rest"
    and records: "records = cd # rest"
    by (auto split: option.splits)
  from processCityData_fields(1) [OF cd] Cons.IH [OF rest] records show ?case by simp
qed

lemma those_processCityData_total:
  assumes "list_all (\<lambda>p. summariesWellFormed (resultOf apiResults p)) summaryApis"
  shows "\<exists>records. those (map (\<lambda>c. processCityData str c apiResults) cs) = Some records"
proof (induction cs)
  case Nil
  show ?case by simp
next
  case (Cons c cs)
  from processCityData_total [OF assms, of str c] obtain cd
    where "processCityData str c apiResults = Some cd" by blast
  with Cons show ?case by auto
qed

lemma merge_cities:
  assumes "citiesOf parsedIntent = city # others"
      and "those (map (\<lambda>c. processCityData str c apiResults) (city # others)) = Some records"
  shows "merge str fmt parsedIntent apiResults =
           \<lparr>cities_f = records,
            comparison = (if length records \<ge> 2 then compareCities fmt records else None),
            generalInfo = None,
            originalQuery_f = originalQuery parsedIntent, intent_f = intent parsedIntent,
            error_f = None\<rparr>"
proof -
  from those_processCityData_names [OF assms(2)] have "records \<noteq> []" by auto
  then show ?thesis
    using assms by (simp add: merge_def merge_try_def)
qed

lemma same_contribution:
  assumes "v' = v \<or> errorShaped v' \<and> errorShaped v"
  shows "truthy v' = truthy v"
    and "extractNews v' = extractNews v"
    and "extractNeighborhoods v' = extractNeighborhoods v"
    and "extractWebResults v' = extractWebResults v"
    and "summaryField str v' = summaryField str v"
    and "processCityInfo str c v' cd = processCityInfo str c v cd"
  using assms
  by (auto simp: errorShaped_truthy errorShaped_extract summaryField_cases)

lemma processCityData_agree:
  assumes "\<forall>apiName. resultOf r' apiName = resultOf r apiName \<or>
             errorShaped (resultOf r' apiName) \<and> errorShaped (resultOf r apiName)"
  shows "processCityData str c r' = processCityData str c r"
proof -
  have a: "\<And>apiName. resultOf r' apiName = resultOf r apiName \<or>
             errorShaped (resultOf r' apiName) \<and> errorShaped (resultOf r apiName)"
    using assms by blast
  show ?thesis
    unfolding processCityData_def whenTruthy_def
    by (simp only: same_contribution [OF a])
qed

lemma merge_agree:
  assumes "\<forall>apiName. resultOf r' apiName = resultOf r apiName \<or>
             errorShaped (resultOf r' apiName) \<and> errorShaped (resultOf r apiName)"
  shows "merge str fmt parsedIntent r' = merge str fmt parsedIntent r"
proof -
  have a: "\<And>apiName. resultOf r' apiName = resultOf r apiName \<or>
             errorShaped (resultOf r' apiName) \<and> errorShaped (resultOf r apiName)"
    using assms by blast
  show ?thesis
    unfolding merge_def merge_try_def
    by (simp only: processCityData_agree [OF assms] same_contribution [OF a])
qed

lemma apiEntry_value:
  "apiEntry env params apiName =
     (case callApi_try env apiName (js_or (field params apiName) params) of
        Inr v \<Rightarrow> v
      | Inl e \<Rightarrow> errorResult apiName e)"
  by (simp add: apiEntry_def callApi_value)

text \<open>
  C1, as stated, fails in its last part. For the request about Austin the web search
  answers and the calls for \<^verbatim>\<open>cityInfo\<close> and \<^verbatim>\<open>news\<close> fail at every attempt. \<^verbatim>\<open>fetch\<close>
  returns a map that holds the search payload and two error objects, and the record fused
  from it has \<^verbatim>\<open>news\<close> set to the empty array: a field written on behalf of a provider
  that failed. The record built from the result of the succeeding provider alone leaves
  \<^verbatim>\<open>news\<close> absent.
\<close>

theorem partial_failure_populated_counterexample:
  "fetch onlySearchAnswers 0 Map.empty austinRequest = Inr austinResults \<and>
   austinResults ''news'' =
     Some (errorResult ''news'' (Some (JsError ''Request failed with status code 500''))) \<and>
   cities_f (merge objectString exactDifference austinRequest austinResults) =
     [\<lparr>name = ''Austin'', fullName = JUndefined, scores = None, summary = None,
        neighborhoods = None, housingMarket = None, jobMarket = None,
        transportation = None, schools = None, news = Some [],
        webResults = Some
          [JObj [(''title'', JStr ''Austin''), (''description'', JStr ''Capital of Texas''),
                 (''url'', JStr ''https://example.org/austin'')]]\<rparr>] \<and>
   cities_f (merge objectString exactDifference austinRequest
       [''webSearch'' \<mapsto> JObj [(''organic'', JArr
          [JObj [(''title'', JStr ''Austin''), (''snippet'', JStr ''Capital of Texas''),
                 (''link'', JStr ''https://example.org/austin'')]])]]) =
     [\<lparr>name = ''Austin'', fullName = JUndefined, scores = None, summary = None,
        neighborhoods = None, housingMarket = None, jobMarket = None,
        transportation = None, schools = None, news = None,
        webResults = Some
          [JObj [(''title'', JStr ''Austin''), (''description'', JStr ''Capital of Texas''),
                 (''url'', JStr ''https://example.org/austin'')]]\<rparr>]"
proof -
  have "\<not> isl (fetch onlySearchAnswers 0 Map.empty austinRequest)" by code_simp
  then have 1: "fetch onlySearchAnswers 0 Map.empty austinRequest = Inr austinResults"
    by (cases "fetch onlySearchAnswers 0 Map.empty austinRequest") (simp_all add: austinResults_def)
  have 2: "austinResults ''news'' =
     Some (errorResult ''news'' (Some (JsError ''Request failed with status code 500'')))"
    by code_simp
  have 3: "cities_f (merge objectString exactDifference austinRequest austinResults) =
     [\<lparr>name = ''Austin'', fullName = JUndefined, scores = None, summary = None,
        neighborhoods = None, housingMarket = None, jobMarket = None,
        transportation = None, schools = None, news = Some [],
        webResults = Some
          [JObj [(''title'', JStr ''Austin''), (''description'', JStr ''Capital of Texas''),
                 (''url'', JStr ''https://example.org/austin'')]]\<rparr>]"
    by code_simp
  have 4: "cities_f (merge objectString exactDifference austinRequest
       [''webSearch'' \<mapsto> JObj [(''organic'', JArr
          [JObj [(''title'', JStr ''Austin''), (''snippet'', JStr ''Capital of Texas''),
                 (''link'', JStr ''https://example.org/austin'')]])]]) =
     [\<lparr>name = ''Austin'', fullName = JUndefined, scores = None, summary = None,
        neighborhoods = None, housingMarket = None, jobMarket = None,
        transportation = None, schools = None, news = None,
        webResults = Some
          [JObj [(''title'', JStr ''Austin''), (''description'', JStr ''Capital of Texas''),
                 (''url'', JStr ''https://example.org/austin'')]]\<rparr>]"
    by code_simp
  show ?thesis by (intro conjI) (rule 1 2 3 4)+
qed

text \<open>
  C1, amended. For every request that names at least one city, and whatever the
  providers do: \<^verbatim>\<open>fetch\<close> does not throw, it returns a result map with an entry for every
  API the intent requires; the entry of a call that threw after its retries is the
  error-shaped object built by \<^verbatim>\<open>callApi\<close>, and the entry of a call that returned a truthy
  value is that value. Fusion of that map (its summary payloads being of the shape the
  adapters return) reports no error and yields one record per requested city, named after
  it. In each record

  \<^item> the fields of a provider that succeeded hold its data: the entries made from its
    articles, features or organic hits, the object made from its summaries, the full
    name and the scores of its urban area or city, the summary and scores of its
    fallback data;

  \<^item> the fields of a provider that failed are not left absent: its error object sets
    \<^verbatim>\<open>news\<close>, \<^verbatim>\<open>neighborhoods\<close> and \<^verbatim>\<open>webResults\<close> to the empty array and
    \<^verbatim>\<open>housingMarket\<close>, \<^verbatim>\<open>jobMarket\<close>, \<^verbatim>\<open>transportation\<close> and \<^verbatim>\<open>schools\<close> to an object
    with undefined summary and sources and empty highlights; only a failed
    \<^verbatim>\<open>cityInfo\<close> leaves its fields absent;

  \<^item> a field is absent when the map holds no truthy result for its provider.

  The fused data is the same for any other result map that differs from this one only in
  what its error-shaped entries contain.
\<close>

theorem partial_failure_tolerated:
  assumes "citiesOf parsedIntent = city # others"
  shows "\<exists>results.
           fetch env now apiCache parsedIntent = Inr results \<and>
           (\<forall>apiName \<in> set (getRequiredApis (intent parsedIntent)).
              results apiName \<noteq> None \<and>
              (\<forall>e. callApi_try env apiName
                      (js_or (field (buildApiQueries parsedIntent) apiName) (buildApiQueries parsedIntent))
                      = Inl e \<longrightarrow>
                   results apiName = Some (errorResult apiName e) \<and>
                   errorShaped (errorResult apiName e)) \<and>
              (\<forall>v. callApi_try env apiName
                      (js_or (field (buildApiQueries parsedIntent) apiName) (buildApiQueries parsedIntent))
                      = Inr v \<and> truthy v \<longrightarrow>
                   results apiName = Some v)) \<and>
           (list_all (\<lambda>p. summariesWellFormed (resultOf results p)) summaryApis \<longrightarrow>
              error_f (merge str fmt parsedIntent results) = None \<and>
              map name (cities_f (merge str fmt parsedIntent results)) = city # others \<and>
              those (map (\<lambda>c. processCityData str c results) (city # others))
                = Some (cities_f (merge str fmt parsedIntent results)) \<and>
              (\<forall>cityData \<in> set (cities_f (merge str fmt parsedIntent results)).
                 (\<not> truthy (resultOf results ''news'') \<longrightarrow> news cityData = None) \<and>
                 (errorShaped (resultOf results ''news'') \<longrightarrow> news cityData = Some []) \<and>
                 (\<forall>articles.
                    field (resultOf results ''news'') ''articles'' = JArr articles \<and>
                    list_all (\<lambda>a. a \<noteq> JUndefined \<and> a \<noteq> JNull \<and>
                                  field a ''source'' \<noteq> JUndefined \<and> field a ''source'' \<noteq> JNull)
                      articles \<longrightarrow>
                    news cityData = Some (map
                      (\<lambda>a. JObj [(''title'', field a ''title''),
                                 (''description'', field a ''description''),
                                 (''url'', field a ''url''),
                                 (''source'', field (field a ''source'') ''name''),
                                 (''publishedAt'', field a ''publishedAt'')])
                      articles)) \<and>
                 (\<not> truthy (resultOf results ''neighborhoods'') \<longrightarrow> neighborhoods cityData = None) \<and>
                 (errorShaped (resultOf results ''neighborhoods'') \<longrightarrow> neighborhoods cityData = Some []) \<and>
                 (\<forall>features.
                    field (resultOf results ''neighborhoods'') ''features'' = JArr features \<and>
                    list_all (\<lambda>f. f \<noteq> JUndefined \<and> f \<noteq> JNull) features \<longrightarrow>
                    neighborhoods cityData = Some (map
                      (\<lambda>f. JObj
                         [(''name'', js_or (js_or (field (field f ''properties'') ''neighborhood'')
                                                  (field (field f ''properties'') ''name''))
                                           (JStr ''Unknown'')),
                          (''city'', js_or (field (field f ''properties'') ''city'') (JStr ''Unknown'')),
                          (''state'', js_or (field (field f ''properties'') ''state'') (JStr ''Unknown'')),
                          (''country'', js_or (field (field f ''properties'') ''country'') (JStr ''Unknown'')),
                          (''coordinates'', js_or (field (field f ''geometry'') ''coordinates'') JNull)])
                      features)) \<and>
                 (\<not> truthy (resultOf results ''webSearch'') \<longrightarrow> webResults cityData = None) \<and>
                 (errorShaped (resultOf results ''webSearch'') \<longrightarrow> webResults cityData = Some []) \<and>
                 (\<forall>organic.
                    field (resultOf results ''webSearch'') ''organic'' = JArr organic \<and>
                    list_all (\<lambda>r. r \<noteq> JUndefined \<and> r \<noteq> JNull) organic \<longrightarrow>
                    webResults cityData = Some (map
                      (\<lambda>r. JObj [(''title'', field r ''title''),
                                 (''description'', field r ''snippet''),
                                 (''url'', field r ''link'')])
                      organic)) \<and>
                 (\<forall>(p, part) \<in> set [(''housingMarket'', housingMarket), (''jobOpportunities'', jobMarket),
                                      (''transportation'', transportation), (''schoolDistricts'', schools)].
                    (\<not> truthy (resultOf results p) \<longrightarrow> part cityData = None) \<and>
                    (errorShaped (resultOf results p) \<longrightarrow> part cityData = Some emptySummaryObject) \<and>
                    (\<forall>ss. field (resultOf results p) ''summaries'' = JArr ss \<longrightarrow>
                       part cityData = Some (JObj
                         [(''summary'', JStr (joinWith str '' '' (map (\<lambda>s. field s ''summary'') ss))),
                          (''sources'', JArr (map (\<lambda>s. field s ''source'') ss)),
                          (''highlights'',
                             JArr (flatten1 (map (\<lambda>s. js_or (field s ''keyPoints'') (JArr [])) ss)))]))) \<and>
                 (\<not> truthy (resultOf results ''cityInfo'') \<or> errorShaped (resultOf results ''cityInfo'') \<longrightarrow>
                    fullName cityData = JUndefined \<and> scores cityData = None \<and> summary cityData = None) \<and>
                 (truthy (field (resultOf results ''cityInfo'') ''urbanArea'') \<longrightarrow>
                    fullName cityData =
                      js_or (field (field (resultOf results ''cityInfo'') ''urbanArea'') ''fullName'')
                            (field (field (resultOf results ''cityInfo'') ''urbanArea'') ''name'') \<and>
                    (\<not> truthy (field (resultOf results ''cityInfo'') ''fallbackData'') \<longrightarrow>
                       scores cityData = extractScores str (resultOf results ''cityInfo''))) \<and>
                 (\<not> truthy (field (resultOf results ''cityInfo'') ''urbanArea'') \<and>
                  truthy (field (resultOf results ''cityInfo'') ''city'') \<longrightarrow>
                    fullName cityData =
                      js_or (field (field (resultOf results ''cityInfo'') ''city'') ''full_name'')
                            (field (field (resultOf results ''cityInfo'') ''city'') ''name'')) \<and>
                 (truthy (field (resultOf results ''cityInfo'') ''fallbackData'') \<longrightarrow>
                    summary cityData =
                      Some (''Information about '' @ name cityData @ '' (using fallback data)'') \<and>
                    scores cityData = Some (estimatedScoresOf
                      (field (field (resultOf results ''cityInfo'') ''fallbackData'') ''estimatedScores''))) \<and>
                 (\<not> truthy (field (resultOf results ''cityInfo'') ''fallbackData'') \<longrightarrow>
                    summary cityData = None \<and>
                    (\<not> truthy (field (resultOf results ''cityInfo'') ''urbanArea'') \<longrightarrow> scores cityData = None)) \<and>
                 (\<not> truthy (field (resultOf results ''cityInfo'') ''urbanArea'') \<and>
                  \<not> truthy (field (resultOf results ''cityInfo'') ''city'') \<longrightarrow>
                    fullName cityData = JUndefined))) \<and>
           (\<forall>results'.
              (\<forall>apiName. resultOf results' apiName = resultOf results apiName \<or>
                 errorShaped (resultOf results' apiName) \<and> errorShaped (resultOf results apiName)) \<longrightarrow>
              merge str fmt parsedIntent results' = merge str fmt parsedIntent results)"
  (is "\<exists>results. ?A results \<and> ?B results \<and> ?C results \<and> ?D results")
proof -
  from fetch_results [of env now apiCache parsedIntent]
  obtain results where f: "fetch env now apiCache parsedIntent = Inr results"
    and entries: "\<forall>apiName \<in> set (getRequiredApis (intent parsedIntent)).
        results apiName \<noteq> None \<and>
        (truthy (apiEntry env (buildApiQueries parsedIntent) apiName) \<longrightarrow>
           results apiName = Some (apiEntry env (buildApiQueries parsedIntent) apiName))"
    by blast
  have 1: "?B results"
  proof (intro ballI conjI allI impI)
    fix apiName assume "apiName \<in> set (getRequiredApis (intent parsedIntent))"
    with entries show "results apiName \<noteq> None" by blast
  next
    fix apiName e
    assume req: "apiName \<in> set (getRequiredApis (intent parsedIntent))"
      and "callApi_try env apiName
             (js_or (field (buildApiQueries parsedIntent) apiName) (buildApiQueries parsedIntent)) = Inl e"
    then have "apiEntry env (buildApiQueries parsedIntent) apiName = errorResult apiName e"
      by (simp add: apiEntry_value)
    with entries req show "results apiName = Some (errorResult apiName e)"
      by (simp add: truthy_errorResult)
  next
    fix apiName e
    show "errorShaped (errorResult apiName e)" by (rule errorShaped_errorResult)
  next
    fix apiName v
    assume req: "apiName \<in> set (getRequiredApis (intent parsedIntent))"
      and "callApi_try env apiName
             (js_or (field (buildApiQueries parsedIntent) apiName) (buildApiQueries parsedIntent)) = Inr v
           \<and> truthy v"
    then have "apiEntry env (buildApiQueries parsedIntent) apiName = v" "truthy v"
      by (simp_all add: apiEntry_value)
    with entries req show "results apiName = Some v" by auto
  qed
  have 2: "?C results" (is "_ \<longrightarrow> ?E \<and> ?N \<and> ?T \<and> (\<forall>cityData \<in> _. ?F cityData)")
  proof (rule impI)
    assume wf: "list_all (\<lambda>p. summariesWellFormed (resultOf results p)) summaryApis"
    from those_processCityData_total [OF wf, of str "city # others"]
    obtain records where r: "those (map (\<lambda>c. processCityData str c results) (city # others)) = Some records"
      by blast
    from merge_cities [OF assms r, of fmt]
    have m: "cities_f (merge str fmt parsedIntent results) = records"
      and e: ?E by simp_all
    from those_processCityData_names [OF r] m have n: ?N by simp
    from r m have t: ?T by simp
    have b: "\<forall>cityData \<in> set (cities_f (merge str fmt parsedIntent results)). ?F cityData"
    proof
      fix cityData assume "cityData \<in> set (cities_f (merge str fmt parsedIntent results))"
      with m have "cityData \<in> set records" by simp
      from those_map_member [OF r this]
      obtain c where "processCityData str c results = Some cityData" by blast
      then show "?F cityData" by (rule processCityData_contents)
    qed
    show "?E \<and> ?N \<and> ?T \<and>
          (\<forall>cityData \<in> set (cities_f (merge str fmt parsedIntent results)). ?F cityData)"
      by (rule conjI [OF e conjI [OF n conjI [OF t b]]])
  qed
  have 3: "?D results"
    using merge_agree by blast
  show ?thesis
    by (rule exI [of _ results], intro conjI) (rule f 1 2 3)+
qed

theorem partial_failure_tolerated_witness:
  "fetch onlySearchAnswers 0 Map.empty austinRequest = Inr austinResults \<and>
   austinResults ''webSearch'' = Some (JObj [(''organic'', JArr
          [JObj [(''title'', JStr ''Austin''), (''snippet'', JStr ''Capital of Texas''),
                 (''link'', JStr ''https://example.org/austin'')]])]) \<and>
   austinResults ''cityInfo'' =
     Some (errorResult ''cityInfo'' (Some (JsError ''Request failed with status code 500''))) \<and>
   austinResults ''news'' =
     Some (errorResult ''news'' (Some (JsError ''Request failed with status code 500''))) \<and>
   merge objectString exactDifference austinRequest austinResults =
     \<lparr>cities_f =
        [\<lparr>name = ''Austin'', fullName = JUndefined, scores = None, summary = None,
        neighborhoods = None, housingMarket = None, jobMarket = None,
        transportation = None, schools = None, news = Some [],
        webResults = Some
          [JObj [(''title'', JStr ''Austin''), (''description'', JStr ''Capital of Texas''),
                 (''url'', JStr ''https://example.org/austin'')]]\<rparr>],
      comparison = None, generalInfo = None,
      originalQuery_f = ''tell me about Austin'', intent_f = CITY_INFO, error_f = None\<rparr>"
proof -
  have c: "citiesOf austinRequest = ''Austin'' # []" by code_simp
  have req: "getRequiredApis (intent austinRequest) = [''webSearch'', ''cityInfo'', ''news'']"
    by code_simp
  have t1: "callApi_try onlySearchAnswers ''cityInfo''
              (js_or (field (buildApiQueries austinRequest) ''cityInfo'') (buildApiQueries austinRequest))
            = Inl (Some (JsError ''Request failed with status code 500''))"
    by code_simp
  have t2: "callApi_try onlySearchAnswers ''news''
              (js_or (field (buildApiQueries austinRequest) ''news'') (buildApiQueries austinRequest))
            = Inl (Some (JsError ''Request failed with status code 500''))"
    by code_simp
  have t3: "callApi_try onlySearchAnswers ''webSearch''
              (js_or (field (buildApiQueries austinRequest) ''webSearch'') (buildApiQueries austinRequest))
            = Inr (JObj [(''organic'', JArr
          [JObj [(''title'', JStr ''Austin''), (''snippet'', JStr ''Capital of Texas''),
                 (''link'', JStr ''https://example.org/austin'')]])]) \<and>
            truthy (JObj [(''organic'', JArr
          [JObj [(''title'', JStr ''Austin''), (''snippet'', JStr ''Capital of Texas''),
                 (''link'', JStr ''https://example.org/austin'')]])])"
    by code_simp
  have run: "merge objectString exactDifference austinRequest austinResults =
     \<lparr>cities_f =
        [\<lparr>name = ''Austin'', fullName = JUndefined, scores = None, summary = None,
        neighborhoods = None, housingMarket = None, jobMarket = None,
        transportation = None, schools = None, news = Some [],
        webResults = Some
          [JObj [(''title'', JStr ''Austin''), (''description'', JStr ''Capital of Texas''),
                 (''url'', JStr ''https://example.org/austin'')]]\<rparr>],
      comparison = None, generalInfo = None,
      originalQuery_f = ''tell me about Austin'', intent_f = CITY_INFO, error_f = None\<rparr>"
    by code_simp
  have m1: "''cityInfo'' \<in> set (getRequiredApis (intent austinRequest))" by (simp add: req)
  have m2: "''news'' \<in> set (getRequiredApis (intent austinRequest))" by (simp add: req)
  have m3: "''webSearch'' \<in> set (getRequiredApis (intent austinRequest))" by (simp add: req)
  from partial_failure_tolerated [OF c, of onlySearchAnswers 0 Map.empty objectString exactDifference]
  obtain results where f: "fetch onlySearchAnswers 0 Map.empty austinRequest = Inr results"
    and entries: "\<forall>apiName \<in> set (getRequiredApis (intent austinRequest)).
              results apiName \<noteq> None \<and>
              (\<forall>e. callApi_try onlySearchAnswers apiName
                      (js_or (field (buildApiQueries austinRequest) apiName) (buildApiQueries austinRequest))
                      = Inl e \<longrightarrow>
                   results apiName = Some (errorResult apiName e) \<and>
                   errorShaped (errorResult apiName e)) \<and>
              (\<forall>v. callApi_try onlySearchAnswers apiName
                      (js_or (field (buildApiQueries austinRequest) apiName) (buildApiQueries austinRequest))
                      = Inr v \<and> truthy v \<longrightarrow>
                   results apiName = Some v)"
    by (elim exE conjE)
  from f have a: "austinResults = results" by (simp add: austinResults_def)
  from bspec [OF entries m1] t1
  have r1: "results ''cityInfo'' =
       Some (errorResult ''cityInfo'' (Some (JsError ''Request failed with status code 500'')))"
    by blast
  from bspec [OF entries m2] t2
  have r2: "results ''news'' =
       Some (errorResult ''news'' (Some (JsError ''Request failed with status code 500'')))"
    by blast
  from bspec [OF entries m3] t3
  have r3: "results ''webSearch'' = Some (JObj [(''organic'', JArr
          [JObj [(''title'', JStr ''Austin''), (''snippet'', JStr ''Capital of Texas''),
                 (''link'', JStr ''https://example.org/austin'')]])])"
    by blast
  show ?thesis
    by (intro conjI) (simp_all only: a f r1 r2 r3 run [unfolded a])
qed

end
